theory Spec2Isabelle
  imports Main "HOL-Library.Product_Lexorder"
begin

section \<open>JavaScript strings\<close>

text \<open>
  A JavaScript string is a sequence of code units; it is modelled as a \<open>string\<close>
  (a list of \<open>char\<close>), and an index into it as a \<open>nat\<close>. The three characters
  the scanners test for are named here.
\<close>

definition dquote :: char where
  "dquote = CHR 0x22"

definition squote :: char where
  "squote = CHR 0x27"

definition backslash :: char where
  "backslash = CHR 0x5C"

definition newline :: char where
  "newline = CHR 0x0A"

text \<open>
  The white space of \<open>\s\<close> and of \<open>String.prototype.trim\<close>, among the code
  units below 256: tab, line feed, vertical tab, form feed, carriage return, space and
  no-break space.
\<close>

definition isSpaceChar :: "char \<Rightarrow> bool" where
  "isSpaceChar c \<longleftrightarrow>
     c = CHR 0x09 \<or> c = CHR 0x0A \<or> c = CHR 0x0B \<or> c = CHR 0x0C \<or> c = CHR 0x0D \<or>
     c = CHR 0x20 \<or> c = CHR 0xA0"

definition isUpper :: "char \<Rightarrow> bool" where
  "isUpper c \<longleftrightarrow> 65 \<le> (of_char c :: nat) \<and> (of_char c :: nat) \<le> 90"

definition isLower :: "char \<Rightarrow> bool" where
  "isLower c \<longleftrightarrow> 97 \<le> (of_char c :: nat) \<and> (of_char c :: nat) \<le> 122"

definition isDigit :: "char \<Rightarrow> bool" where
  "isDigit c \<longleftrightarrow> 48 \<le> (of_char c :: nat) \<and> (of_char c :: nat) \<le> 57"

text \<open>\<open>[a-zA-Z_$]\<close>, \<open>[a-zA-Z0-9_$]\<close> and \<open>\w\<close>.\<close>

definition isIdentStart :: "char \<Rightarrow> bool" where
  "isIdentStart c \<longleftrightarrow> isLower c \<or> isUpper c \<or> c = CHR ''_'' \<or> c = CHR ''$''"

definition isIdentChar :: "char \<Rightarrow> bool" where
  "isIdentChar c \<longleftrightarrow> isLower c \<or> isUpper c \<or> isDigit c \<or> c = CHR ''_'' \<or> c = CHR ''$''"

definition isWordChar :: "char \<Rightarrow> bool" where
  "isWordChar c \<longleftrightarrow> isLower c \<or> isUpper c \<or> isDigit c \<or> c = CHR ''_''"

definition toLowerChar :: "char \<Rightarrow> char" where
  "toLowerChar c = (if isUpper c then char_of ((of_char c :: nat) + 32) else c)"

definition toUpperChar :: "char \<Rightarrow> char" where
  "toUpperChar c = (if isLower c then char_of ((of_char c :: nat) - 32) else c)"

definition trim :: "string \<Rightarrow> string" where
  "trim s = rev (dropWhile isSpaceChar (rev (dropWhile isSpaceChar s)))"

text \<open>\<open>s.substring(a, b)\<close> for indices that are numbers \<open>\<ge> 0\<close>: the smaller one is the start.\<close>

definition substring :: "string \<Rightarrow> nat \<Rightarrow> nat \<Rightarrow> string" where
  "substring s a b = take (max a b - min a b) (drop (min a b) s)"

text \<open>\<open>s.charAt(i)\<close>: the empty string out of range.\<close>

definition charAt :: "string \<Rightarrow> nat \<Rightarrow> string" where
  "charAt s i = (if i < length s then [s ! i] else [])"

definition startsAt :: "string \<Rightarrow> nat \<Rightarrow> string \<Rightarrow> bool" where
  "startsAt s i sub \<longleftrightarrow> i + length sub \<le> length s \<and> take (length sub) (drop i s) = sub"

text \<open>\<open>s.indexOf(sub)\<close>, with \<open>None\<close> for \<open>-1\<close>.\<close>

definition indexOf :: "string \<Rightarrow> string \<Rightarrow> nat option" where
  "indexOf s sub = find (\<lambda>i. startsAt s i sub) [0..<Suc (length s)]"

text \<open>\<open>s.split(sep)\<close> at a separator character, \<open>code.split('\n')\<close> and \<open>lines.join('\n')\<close>.\<close>

fun splitOn :: "char \<Rightarrow> string \<Rightarrow> string list" where
  "splitOn sep [] = [[]]"
| "splitOn sep (c # cs) =
     (if c = sep then [] # splitOn sep cs
      else (case splitOn sep cs of [] \<Rightarrow> [[c]] | l # ls \<Rightarrow> (c # l) # ls))"

definition splitLines :: "string \<Rightarrow> string list" where
  "splitLines code = splitOn newline code"

fun joinLines :: "string list \<Rightarrow> string" where
  "joinLines [] = []"
| "joinLines [l] = l"
| "joinLines (l # m # ls) = l @ [newline] @ joinLines (m # ls)"

text \<open>
  \<open>s.split(placeholder).join(value)\<close>: every occurrence of the (non-empty) placeholder,
  found from left to right without overlap, is replaced by the value. The counter is the
  number of characters of a found occurrence still to skip.
\<close>

fun splitJoinFrom :: "string \<Rightarrow> string \<Rightarrow> nat \<Rightarrow> string \<Rightarrow> string" where
  "splitJoinFrom ph v k [] = []"
| "splitJoinFrom ph v k (c # cs) =
     (if 0 < k then splitJoinFrom ph v (k - 1) cs
      else if ph \<noteq> [] \<and> startsAt (c # cs) 0 ph then v @ splitJoinFrom ph v (length ph - 1) cs
      else c # splitJoinFrom ph v 0 cs)"

definition splitJoin :: "string \<Rightarrow> string \<Rightarrow> string \<Rightarrow> string" where
  "splitJoin s ph v = splitJoinFrom ph v 0 s"

text \<open>
  The replacement text of \<open>String.prototype.replace\<close> (GetSubstitution) for a pattern
  without capture groups: \<open>$$\<close> is a dollar, \<open>$&\<close> the matched text, \<open>$`\<close> the text
  before the match and \<open>$'\<close> the text after it; every other character stands for itself.
\<close>

fun getSubstitution :: "string \<Rightarrow> string \<Rightarrow> string \<Rightarrow> string \<Rightarrow> string" where
  "getSubstitution matched preceding following [] = []"
| "getSubstitution matched preceding following [c] = [c]"
| "getSubstitution matched preceding following (c # d # r) =
     (if c = CHR ''$'' \<and> d = CHR ''$'' then CHR ''$'' # getSubstitution matched preceding following r
      else if c = CHR ''$'' \<and> d = CHR ''&'' then matched @ getSubstitution matched preceding following r
      else if c = CHR ''$'' \<and> d = CHR 0x60 then preceding @ getSubstitution matched preceding following r
      else if c = CHR ''$'' \<and> d = squote then following @ getSubstitution matched preceding following r
      else c # getSubstitution matched preceding following (d # r))"

text \<open>\<open>s.replace(pattern, replacement)\<close> with a string pattern: the first occurrence only.\<close>

definition replaceFirst :: "string \<Rightarrow> string \<Rightarrow> string \<Rightarrow> string" where
  "replaceFirst s pat repl =
     (case indexOf s pat of
        None \<Rightarrow> s
      | Some i \<Rightarrow>
          take i s @ getSubstitution pat (take i s) (drop (i + length pat) s) repl
            @ drop (i + length pat) s)"

text \<open>The decimal numeral of a number, as string concatenation makes it.\<close>

fun decimal :: "nat \<Rightarrow> string" where
  "decimal n =
     (if n < 10 then [char_of (48 + n)] else decimal (n div 10) @ [char_of (48 + n mod 10)])"

text \<open>\<open>x || d\<close> for a string that may be absent: the empty string is falsy.\<close>

definition strOr :: "string option \<Rightarrow> string \<Rightarrow> string" where
  "strOr x d = (case x of None \<Rightarrow> d | Some s \<Rightarrow> if s = [] then d else s)"

text \<open>The truth value of a flag that may be absent.\<close>

definition truthy :: "bool option \<Rightarrow> bool" where
  "truthy x \<longleftrightarrow> x = Some True"

section \<open>Regular expressions\<close>

text \<open>
  The fragment of JavaScript regular expressions that the rules use, with the
  backtracking semantics of the language: \<open>rmatch r s p cs\<close> lists, in the order in
  which backtracking tries them, the ends of the matches of \<open>r\<close> that start at \<open>p\<close>,
  each with its captures (group number, start, end). The quantifiers of the source
  patterns are all applied to a single character class.
\<close>

datatype regex =
    Chr char
  | ChrI char
  | Cls "char \<Rightarrow> bool"
  | Seq regex regex
  | Alt regex regex
  | Star "char \<Rightarrow> bool"
  | Plus "char \<Rightarrow> bool"
  | LazyStar "char \<Rightarrow> bool"
  | Opt regex
  | Group nat regex
  | NotAhead regex
  | WordB
  | Eol
  | Fail

type_synonym captures = "(nat \<times> nat \<times> nat) list"

definition wordAt :: "string \<Rightarrow> nat \<Rightarrow> bool" where
  "wordAt s i \<longleftrightarrow> i < length s \<and> isWordChar (s ! i)"

definition runLength :: "(char \<Rightarrow> bool) \<Rightarrow> string \<Rightarrow> nat \<Rightarrow> nat" where
  "runLength f s p = length (takeWhile f (drop p s))"

fun rmatch :: "regex \<Rightarrow> string \<Rightarrow> nat \<Rightarrow> captures \<Rightarrow> (nat \<times> captures) list" where
  "rmatch (Chr c) s p cs = (if p < length s \<and> s ! p = c then [(Suc p, cs)] else [])"
| "rmatch (ChrI c) s p cs =
     (if p < length s \<and> toUpperChar (s ! p) = toUpperChar c then [(Suc p, cs)] else [])"
| "rmatch (Cls f) s p cs = (if p < length s \<and> f (s ! p) then [(Suc p, cs)] else [])"
| "rmatch (Seq a b) s p cs = concat (map (\<lambda>(e, cs'). rmatch b s e cs') (rmatch a s p cs))"
| "rmatch (Alt a b) s p cs = rmatch a s p cs @ rmatch b s p cs"
| "rmatch (Star f) s p cs = map (\<lambda>k. (p + k, cs)) (rev [0..<Suc (runLength f s p)])"
| "rmatch (Plus f) s p cs = map (\<lambda>k. (p + k, cs)) (rev [1..<Suc (runLength f s p)])"
| "rmatch (LazyStar f) s p cs = map (\<lambda>k. (p + k, cs)) [0..<Suc (runLength f s p)]"
| "rmatch (Opt a) s p cs = rmatch a s p cs @ [(p, cs)]"
| "rmatch (Group n a) s p cs = map (\<lambda>(e, cs'). (e, (n, p, e) # cs')) (rmatch a s p cs)"
| "rmatch (NotAhead a) s p cs = (if rmatch a s p cs = [] then [(p, cs)] else [])"
| "rmatch WordB s p cs = (if (0 < p \<and> wordAt s (p - 1)) \<noteq> wordAt s p then [(p, cs)] else [])"
| "rmatch Eol s p cs = (if p = length s then [(p, cs)] else [])"
| "rmatch Fail s p cs = []"

text \<open>A string taken literally (the result of \<open>DSLRuleUtils.Regex.escape\<close> in a pattern).\<close>

fun lit :: "string \<Rightarrow> regex" where
  "lit [] = Opt Fail"
| "lit [c] = Chr c"
| "lit (c # cs) = Seq (Chr c) (lit cs)"

text \<open>The same, under the flag \<open>i\<close>.\<close>

fun litI :: "string \<Rightarrow> regex" where
  "litI [] = Opt Fail"
| "litI [c] = ChrI c"
| "litI (c # cs) = Seq (ChrI c) (litI cs)"

text \<open>
  A name spliced into a pattern source without escaping (\<open>funcName\<close>, \<open>varName\<close>, a
  library or function name of the configuration). For a name made of identifier
  characters the only character with a meaning of its own is \<open>$\<close>, the end of input;
  other metacharacters are not interpreted.
\<close>

fun spliced :: "string \<Rightarrow> regex" where
  "spliced [] = Opt Fail"
| "spliced (c # cs) = Seq (if c = CHR ''$'' then Eol else Chr c) (spliced cs)"

text \<open>A sequence and an alternative of several parts.\<close>

fun seqs :: "regex list \<Rightarrow> regex" where
  "seqs [] = Opt Fail"
| "seqs [r] = r"
| "seqs (r # rs) = Seq r (seqs rs)"

fun alts :: "regex list \<Rightarrow> regex" where
  "alts [] = Fail"
| "alts [r] = r"
| "alts (r # rs) = Alt r (alts rs)"

text \<open>
  \<open>pattern.exec(s)\<close> of a pattern without the flag \<open>g\<close>, and \<open>pattern.test(s)\<close>: the
  first position with a match, and the match that backtracking finds first there.
\<close>

definition rexec :: "regex \<Rightarrow> string \<Rightarrow> (nat \<times> nat \<times> captures) option" where
  "rexec r s =
     (case find (\<lambda>i. rmatch r s i [] \<noteq> []) [0..<Suc (length s)] of
        None \<Rightarrow> None
      | Some i \<Rightarrow> (case rmatch r s i [] of [] \<Rightarrow> None | (e, cs) # _ \<Rightarrow> Some (i, e, cs)))"

definition rtest :: "regex \<Rightarrow> string \<Rightarrow> bool" where
  "rtest r s \<longleftrightarrow> rexec r s \<noteq> None"

text \<open>
  The loop \<open>while ((match = pattern.exec(s)) !== null)\<close> of a pattern with the flag
  \<open>g\<close>: the matches (start, end, captures) from left to right, each search starting at
  the end of the previous match (\<open>lastIndex\<close>). Every pattern that the rules run in
  such a loop consumes at least one character, so \<open>lastIndex\<close> advances.
\<close>

fun execLoop :: "regex \<Rightarrow> string \<Rightarrow> nat \<Rightarrow> nat list \<Rightarrow> (nat \<times> nat \<times> captures) list" where
  "execLoop r s lastIndex [] = []"
| "execLoop r s lastIndex (i # is) =
     (if i < lastIndex then execLoop r s lastIndex is
      else (case rmatch r s i [] of
              [] \<Rightarrow> execLoop r s lastIndex is
            | (e, cs) # _ \<Rightarrow> (i, e, cs) # execLoop r s e is))"

definition execAll :: "regex \<Rightarrow> string \<Rightarrow> (nat \<times> nat \<times> captures) list" where
  "execAll r s = execLoop r s 0 [0..<Suc (length s)]"

text \<open>The text of capture group \<open>n\<close> of a match.\<close>

definition capture :: "string \<Rightarrow> captures \<Rightarrow> nat \<Rightarrow> string" where
  "capture s cs n = (case map_of cs n of None \<Rightarrow> [] | Some (a, b) \<Rightarrow> substring s a b)"

text \<open>
  \<open>s.replace(pattern, replacement)\<close> of a pattern with the flag \<open>g\<close> and no capture
  group: every match is replaced, the text between the matches is kept.
\<close>

fun replaceMatches :: "string \<Rightarrow> string \<Rightarrow> nat \<Rightarrow> (nat \<times> nat \<times> captures) list \<Rightarrow> string" where
  "replaceMatches s repl pos [] = drop pos s"
| "replaceMatches s repl pos ((i, e, cs) # ms) =
     substring s pos i @ getSubstitution (substring s i e) (take i s) (drop e s) repl
       @ replaceMatches s repl e ms"

definition replaceAll :: "string \<Rightarrow> regex \<Rightarrow> string \<Rightarrow> string" where
  "replaceAll s r repl = replaceMatches s repl 0 (execAll r s)"

section \<open>DSLRuleUtils.String\<close>

text \<open>
  \<open>removeStringLiterals\<close> (dslRuleUtilities.js): one pass \<open>for (i = 0; i < line.length; i++)\<close>
  over the line with the loop state \<open>(result, inString, stringChar)\<close>. The loop has no
  \<open>break\<close>, so it is the left fold of its body over the indices \<open>0 ..< line.length\<close>.
\<close>

definition removeStringLiterals_step ::
    "string \<Rightarrow> string \<times> bool \<times> char option \<Rightarrow> nat \<Rightarrow> string \<times> bool \<times> char option" where
  "removeStringLiterals_step line st i =
     (case st of (result, inString, stringChar) \<Rightarrow>
        let c = line ! i in
        if (c = dquote \<or> c = squote) \<and> (i = 0 \<or> line ! (i - 1) \<noteq> backslash) then
          (if \<not> inString then (result @ '' '', True, Some c)
           else if Some c = stringChar then (result @ '' '', False, None)
           else (result @ '' '', inString, stringChar))
        else if inString then (result @ '' '', inString, stringChar)
        else (result @ [c], inString, stringChar))"

definition removeStringLiterals :: "string \<Rightarrow> string" where
  "removeStringLiterals line =
     fst (foldl (removeStringLiterals_step line) ('''', False, None) [0..<length line])"

text \<open>
  \<open>isInsideString\<close>: the same scan, \<open>for (i = 0; i < position && i < line.length; i++)\<close>,
  with the loop state \<open>(inString, stringChar)\<close>; it returns \<open>inString\<close>.
\<close>

definition isInsideString_step ::
    "string \<Rightarrow> bool \<times> char option \<Rightarrow> nat \<Rightarrow> bool \<times> char option" where
  "isInsideString_step line st i =
     (case st of (inString, stringChar) \<Rightarrow>
        let c = line ! i in
        if (c = dquote \<or> c = squote) \<and> (i = 0 \<or> line ! (i - 1) \<noteq> backslash) then
          (if \<not> inString then (True, Some c)
           else if Some c = stringChar then (False, None)
           else (inString, stringChar))
        else (inString, stringChar))"

definition isInsideString :: "string \<Rightarrow> nat \<Rightarrow> bool" where
  "isInsideString line position =
     fst (foldl (isInsideString_step line) (False, None) [0..<min position (length line)])"

section \<open>DSLRuleUtils.Message\<close>

text \<open>
  \<open>replacePlaceholders(template, values)\<close>: for every key of \<open>values\<close>, in the order
  of the object literal, \<open>result = result.split('{' + key + '}').join(values[key])\<close>.
\<close>

definition replacePlaceholders :: "string \<Rightarrow> (string \<times> string) list \<Rightarrow> string" where
  "replacePlaceholders template values =
     foldl (\<lambda>result (key, v). splitJoin result (''{'' @ key @ ''}'') v) template values"

section \<open>Data model\<close>

text \<open>
  A thrown exception is a value. The rules and the engine throw nothing themselves; what
  can be thrown is the \<open>TypeError\<close> of reading a property of \<open>undefined\<close> or of calling
  something that is not a function.
\<close>

datatype error = TypeError

text \<open>
  A suggestion object. A property that a rule does not set is \<open>None\<close>
  (\<open>hasDifferentForms\<close>, \<open>original\<close>, \<open>fixed\<close>).
\<close>

record suggestion =
  sug_line :: nat
  sug_column :: nat
  sug_message :: string
  sug_severity :: string
  sug_rule :: string
  sug_label :: string
  sug_fixable :: bool
  sug_hasDifferentForms :: "bool option"
  sug_original :: "string option"
  sug_fixed :: "string option"
  sug_instanceNumber :: nat

text \<open>
  The entry of one rule in \<open>config.suggestionRules\<close> (and the object \<open>config.defaults\<close>,
  which has some of the same keys): every key may be absent. \<open>fixTemplates\<close> is an
  object read at the key \<open>fixStyle\<close>.
\<close>

record ruleConfig =
  rc_enabled :: "bool option"
  rc_severity :: "string option"
  rc_label :: "string option"
  rc_suggestion :: "string option"
  rc_autoFixEnabled :: "bool option"
  rc_fixStyle :: "string option"
  rc_fixTemplates :: "(string \<times> string) list option"
  rc_skipIfWrappedIn :: "string list option"
  rc_functionNames :: "string list option"

record config =
  cfg_suggestionRules :: "(string \<times> ruleConfig) list option"
  cfg_defaults :: "ruleConfig option"
  cfg_libraries :: "string list option"

text \<open>
  The context object that \<open>analyzeDSL\<close> builds has \<open>lines\<close>, \<open>totalLines\<close> and
  \<open>options\<close>; the rules read \<open>context.isInComment\<close>, which is absent (falsy) there.
\<close>

record dslContext =
  ctx_lines :: "string list"
  ctx_totalLines :: nat
  ctx_isInComment :: bool

text \<open>
  The globals that the engine and the rules read: the configuration that
  dslSuggestionsConfig.js may have loaded, the two form-selection markers, and the value
  of the checked radio button \<open>suggestionForm\<close> of the page, if there is one.
\<close>

record window =
  win_dslSuggestionsConfigData :: "config option"
  win_forceFormSelection :: "string option"
  win_currentFormSelection :: "string option"
  win_selectedRadio :: "string option"

text \<open>
  A rule object: its name and its two methods. The field \<open>_instanceCounter\<close> of the
  object is the number that \<open>check\<close> takes and returns (also when it throws).
\<close>

type_synonym checkResult = "(error + suggestion list) \<times> nat"

record rule =
  rule_name :: string
  rule_check :: "string \<Rightarrow> nat \<Rightarrow> string list \<Rightarrow> dslContext \<Rightarrow> config \<Rightarrow> nat \<Rightarrow> checkResult"
  rule_fix :: "window \<Rightarrow> string \<Rightarrow> suggestion \<Rightarrow> config \<Rightarrow> error + string"

section \<open>What the rules share\<close>

text \<open>
  Every \<open>check\<close> of dslRules.js starts with the same statements: the counter is reset
  when \<open>lineNumber === 1\<close>; nothing is reported inside a comment; the rule's entry is
  read with \<open>config.suggestionRules.<name>\<close>, which throws when \<open>config.suggestionRules\<close>
  is absent; nothing is reported when the entry is absent or \<open>enabled\<close> is falsy.
\<close>

definition checkProlog ::
    "string \<Rightarrow> nat \<Rightarrow> dslContext \<Rightarrow> config \<Rightarrow> nat \<Rightarrow> (ruleConfig \<Rightarrow> nat \<Rightarrow> checkResult) \<Rightarrow> checkResult" where
  "checkProlog ruleName lineNumber context config counter0 body =
     (let counter = (if lineNumber = 1 then 0 else counter0) in
      if ctx_isInComment context then (Inr [], counter)
      else (case cfg_suggestionRules config of
              None \<Rightarrow> (Inl TypeError, counter)
            | Some rules \<Rightarrow>
                (case map_of rules ruleName of
                   None \<Rightarrow> (Inr [], counter)
                 | Some ruleConfig \<Rightarrow>
                     if \<not> truthy (rc_enabled ruleConfig) then (Inr [], counter)
                     else body ruleConfig counter)))"

text \<open>
  \<open>ruleConfig.fixTemplates && ruleConfig.fixTemplates.traditional !== ruleConfig.fixTemplates.method\<close>.
\<close>

definition hasDifferentForms :: "ruleConfig \<Rightarrow> bool option" where
  "hasDifferentForms ruleConfig =
     (case rc_fixTemplates ruleConfig of
        None \<Rightarrow> None
      | Some ft \<Rightarrow> Some (map_of ft ''traditional'' \<noteq> map_of ft ''method''))"

text \<open>
  The start of the \<open>fix\<close> methods that rewrite: the entry is read the same way, and the
  code is returned as it is unless \<open>autoFixEnabled\<close> is truthy.
\<close>

definition fixProlog ::
    "string \<Rightarrow> string \<Rightarrow> config \<Rightarrow> (ruleConfig \<Rightarrow> error + string) \<Rightarrow> error + string" where
  "fixProlog ruleName code config body =
     (case cfg_suggestionRules config of
        None \<Rightarrow> Inl TypeError
      | Some rules \<Rightarrow>
          (case map_of rules ruleName of
             None \<Rightarrow> Inr code
           | Some ruleConfig \<Rightarrow>
               if \<not> truthy (rc_autoFixEnabled ruleConfig) then Inr code else body ruleConfig))"

section \<open>Rule 1: divisionOperations\<close>

text \<open>\<open>/\/(?!=)/g\<close>\<close>

definition divisionPattern :: regex where
  "divisionPattern = Seq (Chr (CHR ''/'')) (NotAhead (Chr (CHR ''='')))"

text \<open>
  \<open>_extractExpression\<close>: the nearest \<open>=\<close>, \<open>,\<close> or \<open>(\<close> before the division (the
  expression starts after it, or at 0) and the nearest \<open>,\<close> or \<open>)\<close> after it (the
  expression ends before it, or at the end of the line); a loop that stops at the first
  hit is \<open>find\<close> over the indices in the order of the loop.
\<close>

definition divisionOperations_extractExpression :: "string \<Rightarrow> nat \<Rightarrow> string" where
  "divisionOperations_extractExpression line divPosition =
     (let start = (case find (\<lambda>i. line ! i \<in> set ''=,('') (rev [0..<divPosition]) of
                     None \<Rightarrow> 0 | Some i \<Rightarrow> i + 1);
          end = (case find (\<lambda>i. line ! i \<in> set '',)'') [divPosition + 1..<length line] of
                   None \<Rightarrow> length line | Some i \<Rightarrow> i)
      in trim (substring line start end))"

text \<open>
  The second argument of \<open>_isAlreadyWrapped\<close>: \<open>check\<close> passes the expression, a string;
  \<open>fix\<close> passes \<open>match\<close>, the array that \<open>pattern.exec\<close> returned.
\<close>

datatype expressionArg = ExprString string | ExprMatch "nat \<times> nat \<times> captures"

text \<open>
  \<open>DSLRuleUtils.Regex.escape(str)\<close> is \<open>str.replace(...)\<close>: of a string, the pattern
  source that matches it literally; an array has no method \<open>replace\<close>.
\<close>

definition escape :: "expressionArg \<Rightarrow> error + regex" where
  "escape str = (case str of ExprString s \<Rightarrow> Inr (lit s) | ExprMatch m \<Rightarrow> Inl TypeError)"

text \<open>
  The loop of \<open>_isAlreadyWrapped\<close> over \<open>skipFunctions\<close>, with the pattern
  \<open>new RegExp(funcName + '\\s*\\(\\s*' + escapedExpression)\<close>.
\<close>

fun divisionOperations_wrappedIn :: "string \<Rightarrow> expressionArg \<Rightarrow> string list \<Rightarrow> error + bool" where
  "divisionOperations_wrappedIn line expression [] = Inr False"
| "divisionOperations_wrappedIn line expression (funcName # rest) =
     (case escape expression of
        Inl err \<Rightarrow> Inl err
      | Inr escapedExpression \<Rightarrow>
          if rtest (seqs [spliced funcName, Star isSpaceChar, Chr (CHR ''(''), Star isSpaceChar,
                          escapedExpression]) line
          then Inr True
          else divisionOperations_wrappedIn line expression rest)"

definition divisionOperations_isAlreadyWrapped ::
    "string \<Rightarrow> expressionArg \<Rightarrow> ruleConfig \<Rightarrow> error + bool" where
  "divisionOperations_isAlreadyWrapped line expression ruleConfig =
     (let skipFunctions = (case rc_skipIfWrappedIn ruleConfig of None \<Rightarrow> [] | Some fs \<Rightarrow> fs) in
      if length skipFunctions = 0 then Inr False
      else divisionOperations_wrappedIn line expression skipFunctions)"

text \<open>The object that the loop of \<open>check\<close> pushes.\<close>

definition divisionOperations_suggestion ::
    "nat \<Rightarrow> nat \<Rightarrow> string \<Rightarrow> ruleConfig \<Rightarrow> nat \<Rightarrow> suggestion" where
  "divisionOperations_suggestion lineNumber divPosition expression ruleConfig instanceCounter =
     \<lparr>sug_line = lineNumber,
      sug_column = divPosition,
      sug_message = replacePlaceholders
        (strOr (rc_suggestion ruleConfig)
           ''Division operation detected. Consider using ifNaN({expression}, 0) to prevent division by zero errors.'')
        [(''expression'', expression)],
      sug_severity = strOr (rc_severity ruleConfig) ''warning'',
      sug_rule = ''divisionOperations'',
      sug_label = strOr (rc_label ruleConfig) ''divisionOperations'',
      sug_fixable = True,
      sug_hasDifferentForms = hasDifferentForms ruleConfig,
      sug_original = Some expression,
      sug_fixed = None,
      sug_instanceNumber = instanceCounter\<rparr>"

text \<open>
  The loop of \<open>check\<close> over the matches of the division pattern in the masked line; its
  state is \<open>suggestions\<close>, the keys of \<open>processedExpressions\<close> and the instance counter.
\<close>

fun divisionOperations_matches ::
    "string \<Rightarrow> string \<Rightarrow> nat \<Rightarrow> ruleConfig \<Rightarrow> (nat \<times> nat \<times> captures) list \<Rightarrow>
     suggestion list \<Rightarrow> string list \<Rightarrow> nat \<Rightarrow> checkResult" where
  "divisionOperations_matches line lineWithoutStrings lineNumber ruleConfig [] suggestions processed counter =
     (Inr suggestions, counter)"
| "divisionOperations_matches line lineWithoutStrings lineNumber ruleConfig ((divPosition, m) # ms)
       suggestions processed counter =
     (if isInsideString line divPosition then
        divisionOperations_matches line lineWithoutStrings lineNumber ruleConfig ms suggestions processed counter
      else
        let expression = divisionOperations_extractExpression lineWithoutStrings divPosition in
        if expression = [] \<or> trim expression = [] then
          divisionOperations_matches line lineWithoutStrings lineNumber ruleConfig ms suggestions processed counter
        else if expression \<in> set processed then
          divisionOperations_matches line lineWithoutStrings lineNumber ruleConfig ms suggestions processed counter
        else
          (case divisionOperations_isAlreadyWrapped lineWithoutStrings (ExprString expression) ruleConfig of
             Inl err \<Rightarrow> (Inl err, counter)
           | Inr True \<Rightarrow>
               divisionOperations_matches line lineWithoutStrings lineNumber ruleConfig ms suggestions
                 (expression # processed) counter
           | Inr False \<Rightarrow>
               divisionOperations_matches line lineWithoutStrings lineNumber ruleConfig ms
                 (suggestions @
                  [divisionOperations_suggestion lineNumber divPosition expression ruleConfig
                     (counter + 1)])
                 (expression # processed) (counter + 1)))"

definition divisionOperations_check ::
    "string \<Rightarrow> nat \<Rightarrow> string list \<Rightarrow> dslContext \<Rightarrow> config \<Rightarrow> nat \<Rightarrow> checkResult" where
  "divisionOperations_check line lineNumber allLines context config counter0 =
     checkProlog ''divisionOperations'' lineNumber context config counter0
       (\<lambda>ruleConfig counter.
          if indexOf line ''/*'' \<noteq> None \<and> indexOf line ''*/'' \<noteq> None then (Inr [], counter)
          else divisionOperations_matches line (removeStringLiterals line) lineNumber ruleConfig
                 (execAll divisionPattern (removeStringLiterals line)) [] [] counter)"

text \<open>
  \<open>fix\<close>: the inner loop over the occurrences of \<open>suggestion.original\<close> in one line, with
  the state \<open>newLine\<close> and \<open>lastIndex\<close>, then the loop over the lines.
\<close>

fun divisionOperations_fixMatches ::
    "string \<Rightarrow> string \<Rightarrow> ruleConfig \<Rightarrow> (nat \<times> nat \<times> captures) list \<Rightarrow> string \<Rightarrow> nat \<Rightarrow> error + string" where
  "divisionOperations_fixMatches line fixedCode ruleConfig [] newLine lastIndex =
     Inr (newLine @ drop lastIndex line)"
| "divisionOperations_fixMatches line fixedCode ruleConfig ((i, e, cs) # ms) newLine lastIndex =
     (case divisionOperations_isAlreadyWrapped line (ExprMatch (i, e, cs)) ruleConfig of
        Inl err \<Rightarrow> Inl err
      | Inr False \<Rightarrow>
          divisionOperations_fixMatches line fixedCode ruleConfig ms
            (newLine @ substring line lastIndex i @ fixedCode) e
      | Inr True \<Rightarrow>
          divisionOperations_fixMatches line fixedCode ruleConfig ms
            (newLine @ substring line lastIndex e) e)"

fun divisionOperations_fixLines ::
    "string \<Rightarrow> string \<Rightarrow> ruleConfig \<Rightarrow> string list \<Rightarrow> error + string list" where
  "divisionOperations_fixLines original fixedCode ruleConfig [] = Inr []"
| "divisionOperations_fixLines original fixedCode ruleConfig (line # rest) =
     (case divisionOperations_fixMatches line fixedCode ruleConfig (execAll (lit original) line) [] 0 of
        Inl err \<Rightarrow> Inl err
      | Inr newLine \<Rightarrow>
          (case divisionOperations_fixLines original fixedCode ruleConfig rest of
             Inl err \<Rightarrow> Inl err
           | Inr newLines \<Rightarrow> Inr (newLine # newLines)))"

definition divisionOperations_fix :: "window \<Rightarrow> string \<Rightarrow> suggestion \<Rightarrow> config \<Rightarrow> error + string" where
  "divisionOperations_fix w code suggestion config =
     fixProlog ''divisionOperations'' code config
       (\<lambda>ruleConfig.
          case sug_original suggestion of
            None \<Rightarrow> Inr code
          | Some original \<Rightarrow>
              if original = [] then Inr code
              else
                let fixStyle = strOr (rc_fixStyle ruleConfig) ''traditional'';
                    template = strOr (case rc_fixTemplates ruleConfig of
                                        None \<Rightarrow> None | Some ft \<Rightarrow> map_of ft fixStyle)
                                 ''ifNaN({expression}, {defaultAltValue})'';
                    instanceNum = (if sug_instanceNumber suggestion = 0 then 1
                                   else sug_instanceNumber suggestion);
                    defaultValue = ''DEF_VAL_DIV_BY_ZERO_'' @ decimal instanceNum;
                    fixedCode = replaceFirst (replaceFirst template ''{expression}'' original)
                                  ''{defaultAltValue}'' defaultValue
                in (case divisionOperations_fixLines original fixedCode ruleConfig (splitLines code) of
                      Inl err \<Rightarrow> Inl err
                    | Inr newLines \<Rightarrow> Inr (joinLines newLines)))"

section \<open>Rules 2 to 7: one loop over the matches of a pattern\<close>

text \<open>
  The loops of these rules have the same shape: an iteration either goes on to the next
  match (\<open>continue\<close>, or a condition that fails), or it increments the instance counter
  and pushes one suggestion that carries the new value. \<open>body\<close> gives, for a match, the
  suggestion as a function of the counter value, or \<open>None\<close>.
\<close>

definition pushEach :: "('m \<Rightarrow> (nat \<Rightarrow> suggestion) option) \<Rightarrow> 'm list \<Rightarrow> nat \<Rightarrow> suggestion list \<times> nat" where
  "pushEach body ms counter0 =
     foldl (\<lambda>(suggestions, counter) m.
              case body m of
                None \<Rightarrow> (suggestions, counter)
              | Some mk \<Rightarrow> (suggestions @ [mk (counter + 1)], counter + 1))
       ([], counter0) ms"

definition returning :: "suggestion list \<times> nat \<Rightarrow> checkResult" where
  "returning r = (Inr (fst r), snd r)"

subsection \<open>Rule 2: queryFunctions\<close>

text \<open>\<open>new RegExp('\\b(' + functionNames.join('|') + ')\\s*\\(', 'g')\<close>\<close>

definition queryFunctions_pattern :: "string list \<Rightarrow> regex" where
  "queryFunctions_pattern functionNames =
     seqs [WordB, Group 1 (alts (map spliced functionNames)), Star isSpaceChar, Chr (CHR ''('')]"

definition queryFunctions_check ::
    "string \<Rightarrow> nat \<Rightarrow> string list \<Rightarrow> dslContext \<Rightarrow> config \<Rightarrow> nat \<Rightarrow> checkResult" where
  "queryFunctions_check line lineNumber allLines context config counter0 =
     checkProlog ''queryFunctions'' lineNumber context config counter0
       (\<lambda>ruleConfig counter.
          let lineWithoutStrings = removeStringLiterals line;
              functionNames = (case rc_functionNames ruleConfig of None \<Rightarrow> [] | Some ns \<Rightarrow> ns)
          in if 0 < length functionNames then
               returning (pushEach
                 (\<lambda>(position, e, cs).
                    if isInsideString line position then None
                    else Some (\<lambda>n.
                      \<lparr>sug_line = lineNumber,
                       sug_column = position,
                       sug_message = replacePlaceholders
                         (strOr (rc_suggestion ruleConfig)
                            ''Consider setting {function}() as \"One-Time\" for better performance.'')
                         [(''function'', capture lineWithoutStrings cs 1)],
                       sug_severity = strOr (rc_severity ruleConfig) ''info'',
                       sug_rule = ''queryFunctions'',
                       sug_label = strOr (rc_label ruleConfig) ''queryFunctions'',
                       sug_fixable = False,
                       sug_hasDifferentForms = None,
                       sug_original = Some (capture lineWithoutStrings cs 1 @ ''(''),
                       sug_fixed = None,
                       sug_instanceNumber = n\<rparr>))
                 (execAll (queryFunctions_pattern functionNames) lineWithoutStrings) counter)
             else (Inr [], counter))"

definition queryFunctions_fix :: "window \<Rightarrow> string \<Rightarrow> suggestion \<Rightarrow> config \<Rightarrow> error + string" where
  "queryFunctions_fix w code suggestion config = Inr code"

subsection \<open>Rule 3: uniqueKey\<close>

text \<open>\<open>/uniqueKey\s*\(/gi\<close>, run on the line itself.\<close>

definition uniqueKeyPattern :: regex where
  "uniqueKeyPattern = seqs [litI ''uniqueKey'', Star isSpaceChar, Chr (CHR ''('')]"

definition uniqueKey_check ::
    "string \<Rightarrow> nat \<Rightarrow> string list \<Rightarrow> dslContext \<Rightarrow> config \<Rightarrow> nat \<Rightarrow> checkResult" where
  "uniqueKey_check line lineNumber allLines context config counter0 =
     checkProlog ''uniqueKey'' lineNumber context config counter0
       (\<lambda>ruleConfig counter.
          returning (pushEach
            (\<lambda>(position, e, cs).
               if isInsideString line position then None
               else Some (\<lambda>n.
                 \<lparr>sug_line = lineNumber,
                  sug_column = position,
                  sug_message = strOr (rc_suggestion ruleConfig)
                    ''Ensure Attribute with uniqueKey Expression is set as \"One-Time / No-Copy\" as per best practices.'',
                  sug_severity = strOr (rc_severity ruleConfig) ''warning'',
                  sug_rule = ''uniqueKey'',
                  sug_label = strOr (rc_label ruleConfig) ''uniqueKey'',
                  sug_fixable = False,
                  sug_hasDifferentForms = None,
                  sug_original = Some ''uniqueKey'',
                  sug_fixed = None,
                  sug_instanceNumber = n\<rparr>))
            (execAll uniqueKeyPattern line) counter))"

definition uniqueKey_fix :: "window \<Rightarrow> string \<Rightarrow> suggestion \<Rightarrow> config \<Rightarrow> error + string" where
  "uniqueKey_fix w code suggestion config = Inr code"

subsection \<open>Rule 4: variableNaming\<close>

text \<open>\<open>/\b(?:(?:var|let|const)\s+)?([a-zA-Z_$][a-zA-Z0-9_$]*)\s*=/g\<close>\<close>

definition identPattern :: regex where
  "identPattern = Seq (Cls isIdentStart) (Star isIdentChar)"

definition varPattern :: regex where
  "varPattern =
     seqs [WordB,
           Opt (Seq (alts [lit ''var'', lit ''let'', lit ''const'']) (Plus isSpaceChar)),
           Group 1 identPattern, Star isSpaceChar, Chr (CHR ''='')]"

text \<open>
  The camelCase name: \<open>varName.split('_')\<close>, the first part with its first character
  in lower case, every other part with its first character in upper case and the rest
  in lower case, joined.
\<close>

definition camelCasePart :: "nat \<Rightarrow> string \<Rightarrow> string" where
  "camelCasePart index part =
     (if index = 0 then map toLowerChar (take 1 part) @ drop 1 part
      else map toUpperChar (take 1 part) @ map toLowerChar (drop 1 part))"

definition camelCaseName :: "string \<Rightarrow> string" where
  "camelCaseName varName =
     concat (map (\<lambda>(index, part). camelCasePart index part)
               (zip [0..<length (splitOn (CHR ''_'') varName)] (splitOn (CHR ''_'') varName)))"

definition variableNaming_check ::
    "string \<Rightarrow> nat \<Rightarrow> string list \<Rightarrow> dslContext \<Rightarrow> config \<Rightarrow> nat \<Rightarrow> checkResult" where
  "variableNaming_check line lineNumber allLines context config counter0 =
     checkProlog ''variableNaming'' lineNumber context config counter0
       (\<lambda>ruleConfig counter.
          let lineWithoutStrings = removeStringLiterals line in
          returning (pushEach
            (\<lambda>(position, e, cs).
               let varName = capture lineWithoutStrings cs 1 in
               if isInsideString line position then None
               else if indexOf varName ''_'' \<noteq> None \<or> (varName \<noteq> [] \<and> isUpper (hd varName)) then
                 Some (\<lambda>n.
                   \<lparr>sug_line = lineNumber,
                    sug_column = position,
                    sug_message = replacePlaceholders
                      (strOr (rc_suggestion ruleConfig)
                         ''Variable \"{varName}\" should use camelCase naming convention'')
                      [(''varName'', varName), (''correctedName'', camelCaseName varName)],
                    sug_severity = strOr (rc_severity ruleConfig) ''info'',
                    sug_rule = ''variableNaming'',
                    sug_label = strOr (rc_label ruleConfig) ''variableNaming'',
                    sug_fixable = True,
                    sug_hasDifferentForms = hasDifferentForms ruleConfig,
                    sug_original = Some varName,
                    sug_fixed = None,
                    sug_instanceNumber = n\<rparr>)
               else None)
            (execAll varPattern lineWithoutStrings) counter))"

text \<open>
  \<open>fix\<close> returns the code as it is unless the suggestion has both \<open>original\<close> and
  \<open>fixed\<close>; then it replaces
  \<open>new RegExp('\\b' + escape(suggestion.original) + '\\b', 'g')\<close> by \<open>suggestion.fixed\<close>.
\<close>

definition variableNaming_fix :: "window \<Rightarrow> string \<Rightarrow> suggestion \<Rightarrow> config \<Rightarrow> error + string" where
  "variableNaming_fix w code suggestion config =
     fixProlog ''variableNaming'' code config
       (\<lambda>ruleConfig.
          case (sug_original suggestion, sug_fixed suggestion) of
            (Some original, Some fixed) \<Rightarrow>
              if original = [] \<or> fixed = [] then Inr code
              else Inr (replaceAll code (seqs [WordB, lit original, WordB]) fixed)
          | _ \<Rightarrow> Inr code)"

subsection \<open>Rule 5: nonOptimalNodeAccess\<close>

text \<open>
  \<open>_findNodeAccess\<close>: for every library of \<open>config.libraries\<close> (or of the default
  list), the matches of \<open>new RegExp(library + '\\.(\\w+)(?!\\s*:)', 'g')\<close>, as
  (library, name, position, fullMatch).
\<close>

definition nodeAccessPattern :: "string \<Rightarrow> regex" where
  "nodeAccessPattern library =
     seqs [spliced library, Chr (CHR ''.''), Group 1 (Plus isWordChar),
           NotAhead (Seq (Star isSpaceChar) (Chr (CHR '':'')))]"

definition nonOptimalNodeAccess_findNodeAccess ::
    "string \<Rightarrow> config \<Rightarrow> (string \<times> string \<times> nat \<times> string) list" where
  "nonOptimalNodeAccess_findNodeAccess line config =
     (let libraries = (case cfg_libraries config of
                         None \<Rightarrow> [''Primary'', ''Secondary'', ''Tertiary''] | Some ls \<Rightarrow> ls)
      in concat (map (\<lambda>library.
                        map (\<lambda>(position, e, cs).
                               (library, capture line cs 1, position, substring line position e))
                          (execAll (nodeAccessPattern library) line))
                   libraries))"

definition nonOptimalNodeAccess_check ::
    "string \<Rightarrow> nat \<Rightarrow> string list \<Rightarrow> dslContext \<Rightarrow> config \<Rightarrow> nat \<Rightarrow> checkResult" where
  "nonOptimalNodeAccess_check line lineNumber allLines context config counter0 =
     checkProlog ''nonOptimalNodeAccess'' lineNumber context config counter0
       (\<lambda>ruleConfig counter.
          returning (pushEach
            (\<lambda>(library, nodeName, position, fullMatch).
               Some (\<lambda>n.
                 \<lparr>sug_line = lineNumber,
                  sug_column = position,
                  sug_message = replacePlaceholders
                    (strOr (rc_suggestion ruleConfig)
                       ''{library} node reference detected. Consider storing in variable if used multiple times.'')
                    [(''library'', library), (''node'', nodeName)],
                  sug_severity = strOr (rc_severity ruleConfig) ''info'',
                  sug_rule = ''nonOptimalNodeAccess'',
                  sug_label = strOr (rc_label ruleConfig) ''nonOptimalNodeAccess'',
                  sug_fixable = False,
                  sug_hasDifferentForms = None,
                  sug_original = Some fullMatch,
                  sug_fixed = None,
                  sug_instanceNumber = n\<rparr>))
            (nonOptimalNodeAccess_findNodeAccess (removeStringLiterals line) config) counter))"

definition nonOptimalNodeAccess_fix :: "window \<Rightarrow> string \<Rightarrow> suggestion \<Rightarrow> config \<Rightarrow> error + string" where
  "nonOptimalNodeAccess_fix w code suggestion config = Inr code"

subsection \<open>Rule 6: nullAccessProtection\<close>

text \<open>\<open>/([a-zA-Z_$][a-zA-Z0-9_$]*)\.([a-zA-Z_$][a-zA-Z0-9_$]*)/g\<close>\<close>

definition propertyAccessPattern :: regex where
  "propertyAccessPattern = seqs [Group 1 identPattern, Chr (CHR ''.''), Group 2 identPattern]"

text \<open>\<open>[!=]=\<close>\<close>

definition comparison :: regex where
  "comparison = Seq (Cls (\<lambda>c. c = CHR ''!'' \<or> c = CHR ''='')) (Chr (CHR ''=''))"

text \<open>\<open>_hasNullCheck\<close>: whether one of the four patterns matches in the line.\<close>

definition nullAccessProtection_hasNullCheck :: "string \<Rightarrow> string \<Rightarrow> bool" where
  "nullAccessProtection_hasNullCheck line varName \<longleftrightarrow>
     list_ex (\<lambda>pattern. rtest pattern line)
       [seqs [lit ''if'', Star isSpaceChar, Chr (CHR ''(''), Star isSpaceChar, spliced varName,
              Star isSpaceChar, comparison],
        seqs [spliced varName, Star isSpaceChar, comparison, Star isSpaceChar, lit ''null''],
        seqs [spliced varName, Star isSpaceChar, comparison, Star isSpaceChar, lit ''undefined''],
        seqs [lit ''typeof'', Plus isSpaceChar, spliced varName, Star isSpaceChar, comparison]]"

definition nullAccessProtection_check ::
    "string \<Rightarrow> nat \<Rightarrow> string list \<Rightarrow> dslContext \<Rightarrow> config \<Rightarrow> nat \<Rightarrow> checkResult" where
  "nullAccessProtection_check line lineNumber allLines context config counter0 =
     checkProlog ''nullAccessProtection'' lineNumber context config counter0
       (\<lambda>ruleConfig counter.
          let lineWithoutStrings = removeStringLiterals line in
          returning (pushEach
            (\<lambda>(position, matchEnd, cs).
               let object = capture lineWithoutStrings cs 1;
                   property = capture lineWithoutStrings cs 2
               in if isInsideString line position then None
                  else if charAt lineWithoutStrings matchEnd = ''('' then None
                  else if indexOf lineWithoutStrings (object @ ''?.'') = None
                          \<and> \<not> nullAccessProtection_hasNullCheck lineWithoutStrings object then
                    Some (\<lambda>n.
                      \<lparr>sug_line = lineNumber,
                       sug_column = position,
                       sug_message = replacePlaceholders
                         (strOr (rc_suggestion ruleConfig)
                            ''Property access on \"{object}\" may fail if null/undefined. Consider using optional chaining ({object}?.{property}) or null check.'')
                         [(''object'', object), (''property'', property),
                          (''expression'', object @ ''.'' @ property)],
                       sug_severity = strOr (rc_severity ruleConfig) ''warning'',
                       sug_rule = ''nullAccessProtection'',
                       sug_label = strOr (rc_label ruleConfig) ''nullAccessProtection'',
                       sug_fixable = True,
                       sug_hasDifferentForms = hasDifferentForms ruleConfig,
                       sug_original = Some (object @ ''.'' @ property),
                       sug_fixed = None,
                       sug_instanceNumber = n\<rparr>)
                  else None)
            (execAll propertyAccessPattern lineWithoutStrings) counter))"

text \<open>
  \<open>fix\<close>: the style is \<open>window.__forceFormSelection || ruleConfig.fixStyle || 'traditional'\<close>;
  the template is filled in with \<open>replacePlaceholders\<close>, and every occurrence of
  \<open>suggestion.original\<close> in the whole code is replaced (\<open>code.replace\<close> with the flag
  \<open>g\<close>), with no test of what surrounds the occurrence.
\<close>

definition nullAccessProtection_fix :: "window \<Rightarrow> string \<Rightarrow> suggestion \<Rightarrow> config \<Rightarrow> error + string" where
  "nullAccessProtection_fix w code suggestion config =
     fixProlog ''nullAccessProtection'' code config
       (\<lambda>ruleConfig.
          case sug_original suggestion of
            None \<Rightarrow> Inr code
          | Some original \<Rightarrow>
              if original = [] then Inr code
              else
                let fixStyle = strOr (win_forceFormSelection w)
                                 (strOr (rc_fixStyle ruleConfig) ''traditional'');
                    template = strOr (case rc_fixTemplates ruleConfig of
                                        None \<Rightarrow> None | Some ft \<Rightarrow> map_of ft fixStyle)
                                 ''ifNull({expression})'';
                    parts = splitOn (CHR ''.'') original
                in if length parts \<noteq> 2 then Inr code
                   else
                     let instanceNum = (if sug_instanceNumber suggestion = 0 then 1
                                        else sug_instanceNumber suggestion);
                         defaultAltValue = ''DEF_VAL_NULL_SAFETY_'' @ decimal instanceNum;
                         fixed = replacePlaceholders template
                                   [(''object'', parts ! 0), (''property'', parts ! 1),
                                    (''expression'', original),
                                    (''defaultAltValue'', defaultAltValue)]
                     in Inr (replaceAll code (lit original) fixed))"

subsection \<open>Rule 7: mathOperationsParens\<close>

text \<open>
  \<open>/([a-zA-Z_$][a-zA-Z0-9_$]*)\s*([\+\-])\s*([a-zA-Z_$][a-zA-Z0-9_$]*)\s*([\*\/])\s*([a-zA-Z_$][a-zA-Z0-9_$]*)/g\<close>
\<close>

definition complexMathPattern :: regex where
  "complexMathPattern =
     seqs [Group 1 identPattern, Star isSpaceChar,
           Group 2 (Cls (\<lambda>c. c = CHR ''+'' \<or> c = CHR ''-'')), Star isSpaceChar,
           Group 3 identPattern, Star isSpaceChar,
           Group 4 (Cls (\<lambda>c. c = CHR ''*'' \<or> c = CHR ''/'')), Star isSpaceChar,
           Group 5 identPattern]"

definition mathOperationsParens_hasParentheses :: "string \<Rightarrow> nat \<Rightarrow> nat \<Rightarrow> bool" where
  "mathOperationsParens_hasParentheses line startPos len \<longleftrightarrow>
     substring line (startPos - 1) startPos = ''(''
     \<or> substring line (startPos + len) (startPos + len + 1) = '')''"

definition mathOperationsParens_check ::
    "string \<Rightarrow> nat \<Rightarrow> string list \<Rightarrow> dslContext \<Rightarrow> config \<Rightarrow> nat \<Rightarrow> checkResult" where
  "mathOperationsParens_check line lineNumber allLines context config counter0 =
     checkProlog ''mathOperationsParens'' lineNumber context config counter0
       (\<lambda>ruleConfig counter.
          let lineWithoutStrings = removeStringLiterals line in
          returning (pushEach
            (\<lambda>(position, e, cs).
               if isInsideString line position then None
               else if mathOperationsParens_hasParentheses lineWithoutStrings position (e - position)
               then None
               else Some (\<lambda>n.
                 \<lparr>sug_line = lineNumber,
                  sug_column = position,
                  sug_message = strOr (rc_suggestion ruleConfig)
                      ''Complex math expression detected. Consider adding parentheses for clarity.''
                    @ '' **'' @ substring lineWithoutStrings position e @ ''**'',
                  sug_severity = strOr (rc_severity ruleConfig) ''info'',
                  sug_rule = ''mathOperationsParens'',
                  sug_label = strOr (rc_label ruleConfig) ''mathOperationsParens'',
                  sug_fixable = truthy (rc_autoFixEnabled ruleConfig),
                  sug_hasDifferentForms = None,
                  sug_original = Some (substring lineWithoutStrings position e),
                  sug_fixed = None,
                  sug_instanceNumber = n\<rparr>))
            (execAll complexMathPattern lineWithoutStrings) counter))"

definition mathOperationsParens_fix :: "window \<Rightarrow> string \<Rightarrow> suggestion \<Rightarrow> config \<Rightarrow> error + string" where
  "mathOperationsParens_fix w code suggestion config =
     fixProlog ''mathOperationsParens'' code config
       (\<lambda>ruleConfig.
          case (sug_original suggestion, sug_fixed suggestion) of
            (Some original, Some fixed) \<Rightarrow>
              if original = [] \<or> fixed = [] then Inr code
              else Inr (replaceAll code (lit original) fixed)
          | _ \<Rightarrow> Inr code)"

section \<open>Rule 8: extraneousBlocks\<close>

text \<open>
  \<open>_countStatements\<close>: the comments \<open>/\/\*[\s\S]*?\*\//g\<close> and \<open>/\/\/.*/g\<close> are removed,
  the rest is trimmed, and the commas at depth 0 are counted; \<open>depth\<close> may become
  negative.
\<close>

definition blockCommentPattern :: regex where
  "blockCommentPattern =
     seqs [Chr (CHR ''/''), Chr (CHR ''*''), LazyStar (\<lambda>c. True), Chr (CHR ''*''), Chr (CHR ''/'')]"

definition lineCommentPattern :: regex where
  "lineCommentPattern =
     seqs [Chr (CHR ''/''), Chr (CHR ''/''), Star (\<lambda>c. c \<noteq> CHR 0x0A \<and> c \<noteq> CHR 0x0D)]"

definition extraneousBlocks_countStatements :: "string \<Rightarrow> nat" where
  "extraneousBlocks_countStatements content =
     (let contentNoComments =
            replaceAll (replaceAll content blockCommentPattern []) lineCommentPattern [];
          trimmed = trim contentNoComments
      in if trimmed = [] then 0
         else snd (foldl (\<lambda>(depth, commaCount) c.
                            if c \<in> set ''([{'' then (depth + 1, commaCount)
                            else if c \<in> set '')]}'' then (depth - 1, commaCount)
                            else if c = CHR '','' \<and> depth = 0 then (depth, commaCount + 1)
                            else (depth, commaCount))
                    (0 :: int, 0 :: nat) trimmed) + 1)"

text \<open>
  \<open>_checkBlockFunction\<close>, the loop over the characters of one masked line. Its state is
  \<open>blockContent\<close>, \<open>parenDepth\<close> and, once \<open>foundBlock\<close> is true, \<open>blockStartCol\<close>; the
  counter \<open>skip\<close> is the \<open>j += 5\<close> after \<open>block(\<close> was found. The loop either runs to the
  end of the line (\<open>Inl\<close>, the state) or reaches the parenthesis that closes the block
  (\<open>Inr\<close>, the content and the start column), where the method returns.
\<close>

fun extraneousBlocks_scanLine ::
    "string \<Rightarrow> nat list \<Rightarrow> nat \<Rightarrow> string \<times> nat \<times> nat option \<Rightarrow>
     (string \<times> nat \<times> nat option) + (string \<times> nat)" where
  "extraneousBlocks_scanLine lws [] skip st = Inl st"
| "extraneousBlocks_scanLine lws (j # js) skip (blockContent, parenDepth, found) =
     (if 0 < skip then extraneousBlocks_scanLine lws js (skip - 1) (blockContent, parenDepth, found)
      else if found = None \<and> substring lws j (j + 6) = ''block('' then
        extraneousBlocks_scanLine lws js 5 (blockContent, 1, Some j)
      else
        (case found of
           None \<Rightarrow> extraneousBlocks_scanLine lws js 0 (blockContent, parenDepth, found)
         | Some blockStartCol \<Rightarrow>
             if lws ! j = CHR ''('' then
               extraneousBlocks_scanLine lws js 0 (blockContent @ [lws ! j], parenDepth + 1, found)
             else if lws ! j = CHR '')'' then
               (if parenDepth - 1 = 0 then Inr (blockContent, blockStartCol)
                else extraneousBlocks_scanLine lws js 0
                       (blockContent @ [lws ! j], parenDepth - 1, found))
             else extraneousBlocks_scanLine lws js 0 (blockContent @ [lws ! j], parenDepth, found)))"

text \<open>The loop over the lines, from the line of the check on.\<close>

fun extraneousBlocks_scanLines ::
    "string list \<Rightarrow> string \<times> nat \<times> nat option \<Rightarrow> (string \<times> nat) option" where
  "extraneousBlocks_scanLines [] st = None"
| "extraneousBlocks_scanLines (line # rest) st =
     (case extraneousBlocks_scanLine (removeStringLiterals line)
             [0..<length (removeStringLiterals line)] 0 st of
        Inr closed \<Rightarrow> Some closed
      | Inl (blockContent, parenDepth, found) \<Rightarrow>
          if found \<noteq> None \<and> parenDepth = 0 then None
          else extraneousBlocks_scanLines rest
                 (if found \<noteq> None \<and> 0 < parenDepth then blockContent @ [newline] else blockContent,
                  parenDepth, found))"

text \<open>
  \<open>_checkBlockFunction(startLine, allLines, ruleConfig)\<close>: a suggestion when the block
  holds one statement. The loop starts at \<open>allLines[startLine - 1]\<close>, which for
  \<open>startLine = 0\<close> is \<open>undefined\<close>, and \<open>removeStringLiterals\<close> throws on it.
\<close>

definition extraneousBlocks_checkBlockFunction ::
    "nat \<Rightarrow> string list \<Rightarrow> ruleConfig \<Rightarrow> nat \<Rightarrow> (error + suggestion option) \<times> nat" where
  "extraneousBlocks_checkBlockFunction startLine allLines ruleConfig counter =
     (if startLine = 0 then (Inl TypeError, counter)
      else (case extraneousBlocks_scanLines (drop (startLine - 1) allLines) ([], 0, None) of
              None \<Rightarrow> (Inr None, counter)
            | Some (blockContent, blockStartCol) \<Rightarrow>
                if extraneousBlocks_countStatements blockContent = 1 then
                  (Inr (Some
                     \<lparr>sug_line = startLine,
                      sug_column = blockStartCol,
                      sug_message = strOr (rc_suggestion ruleConfig)
                        ''Remove unnecessary block() wrapper for single statement.'',
                      sug_severity = strOr (rc_severity ruleConfig) ''info'',
                      sug_rule = ''extraneousBlocks'',
                      sug_label = strOr (rc_label ruleConfig) ''extraneousBlocks'',
                      sug_fixable = True,
                      sug_hasDifferentForms = hasDifferentForms ruleConfig,
                      sug_original = None,
                      sug_fixed = None,
                      sug_instanceNumber = counter + 1\<rparr>), counter + 1)
                else (Inr None, counter)))"

text \<open>The suggestion of the two brace cases, which differ in the message and the severity.\<close>

definition extraneousBlocks_braces :: "nat \<Rightarrow> ruleConfig \<Rightarrow> string \<Rightarrow> string \<Rightarrow> nat \<Rightarrow> suggestion" where
  "extraneousBlocks_braces lineNumber ruleConfig msg sev n =
     \<lparr>sug_line = lineNumber,
      sug_column = 0,
      sug_message = strOr (rc_suggestion ruleConfig) msg,
      sug_severity = strOr (rc_severity ruleConfig) sev,
      sug_rule = ''extraneousBlocks'',
      sug_label = strOr (rc_label ruleConfig) ''extraneousBlocks'',
      sug_fixable = True,
      sug_hasDifferentForms = hasDifferentForms ruleConfig,
      sug_original = None,
      sug_fixed = None,
      sug_instanceNumber = n\<rparr>"

text \<open>
  The conditions of the two brace cases: a line that is \<open>{\<close>, followed by one line that
  is neither empty nor \<open>}\<close> and then by a line that is \<open>}\<close>; and a line that is \<open>{}\<close>, or
  \<open>{\<close> followed by \<open>}\<close>.
\<close>

definition extraneousBlocks_singleStatement :: "string \<Rightarrow> nat \<Rightarrow> string list \<Rightarrow> bool" where
  "extraneousBlocks_singleStatement trimmedLine lineNumber allLines \<longleftrightarrow>
     trimmedLine = ''{'' \<and> lineNumber + 1 < length allLines
     \<and> trim (allLines ! lineNumber) \<noteq> []
     \<and> trim (allLines ! lineNumber) \<noteq> ''}''
     \<and> (if lineNumber + 2 < length allLines then trim (allLines ! (lineNumber + 1)) else []) = ''}''"

definition extraneousBlocks_emptyBlock :: "string \<Rightarrow> nat \<Rightarrow> string list \<Rightarrow> bool" where
  "extraneousBlocks_emptyBlock trimmedLine lineNumber allLines \<longleftrightarrow>
     trimmedLine = ''{}''
     \<or> (trimmedLine = ''{'' \<and> lineNumber < length allLines \<and> trim (allLines ! lineNumber) = ''}'')"

definition extraneousBlocks_check ::
    "string \<Rightarrow> nat \<Rightarrow> string list \<Rightarrow> dslContext \<Rightarrow> config \<Rightarrow> nat \<Rightarrow> checkResult" where
  "extraneousBlocks_check line lineNumber allLines context config counter0 =
     checkProlog ''extraneousBlocks'' lineNumber context config counter0
       (\<lambda>ruleConfig counter.
          let trimmedLine = trim (removeStringLiterals line) in
          case (if indexOf trimmedLine ''block('' \<noteq> None
                then extraneousBlocks_checkBlockFunction lineNumber allLines ruleConfig counter
                else (Inr None, counter)) of
            (Inl err, c1) \<Rightarrow> (Inl err, c1)
          | (Inr blockResult, c1) \<Rightarrow>
              let single = extraneousBlocks_singleStatement trimmedLine lineNumber allLines;
                  c2 = (if single then c1 + 1 else c1);
                  empty = extraneousBlocks_emptyBlock trimmedLine lineNumber allLines
              in (Inr ((case blockResult of None \<Rightarrow> [] | Some s \<Rightarrow> [s])
                       @ (if single then
                            [extraneousBlocks_braces lineNumber ruleConfig
                               ''Unnecessary block detected. Single statement does not require braces.''
                               ''info'' (c1 + 1)]
                          else [])
                       @ (if empty then
                            [extraneousBlocks_braces lineNumber ruleConfig
                               ''Empty block detected. Consider removing or adding implementation.''
                               ''warning'' (c2 + 1)]
                          else [])),
                  if empty then c2 + 1 else c2))"

definition extraneousBlocks_fix :: "window \<Rightarrow> string \<Rightarrow> suggestion \<Rightarrow> config \<Rightarrow> error + string" where
  "extraneousBlocks_fix w code suggestion config = Inr code"

section \<open>DSL_RULES\<close>

definition DSL_RULES :: "rule list" where
  "DSL_RULES =
     [\<lparr>rule_name = ''divisionOperations'', rule_check = divisionOperations_check,
       rule_fix = divisionOperations_fix\<rparr>,
      \<lparr>rule_name = ''queryFunctions'', rule_check = queryFunctions_check,
       rule_fix = queryFunctions_fix\<rparr>,
      \<lparr>rule_name = ''uniqueKey'', rule_check = uniqueKey_check,
       rule_fix = uniqueKey_fix\<rparr>,
      \<lparr>rule_name = ''variableNaming'', rule_check = variableNaming_check,
       rule_fix = variableNaming_fix\<rparr>,
      \<lparr>rule_name = ''nonOptimalNodeAccess'', rule_check = nonOptimalNodeAccess_check,
       rule_fix = nonOptimalNodeAccess_fix\<rparr>,
      \<lparr>rule_name = ''nullAccessProtection'', rule_check = nullAccessProtection_check,
       rule_fix = nullAccessProtection_fix\<rparr>,
      \<lparr>rule_name = ''mathOperationsParens'', rule_check = mathOperationsParens_check,
       rule_fix = mathOperationsParens_fix\<rparr>,
      \<lparr>rule_name = ''extraneousBlocks'', rule_check = extraneousBlocks_check,
       rule_fix = extraneousBlocks_fix\<rparr>]"

section \<open>The engine (dslSuggestionsEngine.js)\<close>

text \<open>
  The instance counters of the rule objects are the state of the engine: a function from
  the index of a rule in \<open>DSL_RULES\<close> to the value of its \<open>_instanceCounter\<close>.
\<close>

type_synonym counters = "nat \<Rightarrow> nat"

definition getCurrentFormSelection :: "window \<Rightarrow> string" where
  "getCurrentFormSelection w =
     (case win_forceFormSelection w of
        Some f \<Rightarrow> if f \<noteq> [] then f
                  else (case win_currentFormSelection w of
                          Some c \<Rightarrow> if c \<noteq> [] then c
                                    else (case win_selectedRadio w of
                                            Some v \<Rightarrow> v | None \<Rightarrow> ''traditional'')
                        | None \<Rightarrow> (case win_selectedRadio w of
                                     Some v \<Rightarrow> v | None \<Rightarrow> ''traditional''))
      | None \<Rightarrow> (case win_currentFormSelection w of
                   Some c \<Rightarrow> if c \<noteq> [] then c
                             else (case win_selectedRadio w of
                                     Some v \<Rightarrow> v | None \<Rightarrow> ''traditional'')
                 | None \<Rightarrow> (case win_selectedRadio w of
                              Some v \<Rightarrow> v | None \<Rightarrow> ''traditional'')))"

text \<open>
  \<open>applyConfigDefaults(ruleConfig, defaults)\<close> for two objects that are present: the keys
  of \<open>defaults\<close>, overwritten by the keys of \<open>ruleConfig\<close>.
\<close>

definition orDefault :: "'a option \<Rightarrow> 'a option \<Rightarrow> 'a option" where
  "orDefault x d = (case x of None \<Rightarrow> d | Some v \<Rightarrow> Some v)"

definition applyConfigDefaults :: "ruleConfig \<Rightarrow> ruleConfig \<Rightarrow> ruleConfig" where
  "applyConfigDefaults ruleConfig defaults =
     \<lparr>rc_enabled = orDefault (rc_enabled ruleConfig) (rc_enabled defaults),
      rc_severity = orDefault (rc_severity ruleConfig) (rc_severity defaults),
      rc_label = orDefault (rc_label ruleConfig) (rc_label defaults),
      rc_suggestion = orDefault (rc_suggestion ruleConfig) (rc_suggestion defaults),
      rc_autoFixEnabled = orDefault (rc_autoFixEnabled ruleConfig) (rc_autoFixEnabled defaults),
      rc_fixStyle = orDefault (rc_fixStyle ruleConfig) (rc_fixStyle defaults),
      rc_fixTemplates = orDefault (rc_fixTemplates ruleConfig) (rc_fixTemplates defaults),
      rc_skipIfWrappedIn = orDefault (rc_skipIfWrappedIn ruleConfig) (rc_skipIfWrappedIn defaults),
      rc_functionNames = orDefault (rc_functionNames ruleConfig) (rc_functionNames defaults)\<rparr>"

text \<open>The configuration \<open>{}\<close>.\<close>

definition emptyConfig :: config where
  "emptyConfig = \<lparr>cfg_suggestionRules = None, cfg_defaults = None, cfg_libraries = None\<rparr>"

record summary =
  sum_total :: nat
  sum_byType :: "(string \<times> nat) list"
  sum_bySeverity :: "(string \<times> nat) list"

record analysisResults =
  res_suggestions :: "suggestion list"
  res_summary :: summary

text \<open>
  The inner loop of \<open>analyzeDSL\<close>: one rule over the lines \<open>lineNum\<close>, with
  \<open>rule.check(line, lineNum + 1, lines, context, config)\<close>; an exception ends it.
\<close>

fun checkLines ::
    "rule \<Rightarrow> string list \<Rightarrow> dslContext \<Rightarrow> config \<Rightarrow> nat list \<Rightarrow> suggestion list \<Rightarrow> nat \<Rightarrow> checkResult" where
  "checkLines r lines context config [] suggestions counter = (Inr suggestions, counter)"
| "checkLines r lines context config (lineNum # rest) suggestions counter =
     (case rule_check r (lines ! lineNum) (lineNum + 1) lines context config counter of
        (Inl err, counter') \<Rightarrow> (Inl err, counter')
      | (Inr lineSuggestions, counter') \<Rightarrow>
          checkLines r lines context config rest (suggestions @ lineSuggestions) counter')"

text \<open>The outer loop over the rules; \<open>i\<close> is the index of the first rule of the list.\<close>

fun checkRules ::
    "rule list \<Rightarrow> nat \<Rightarrow> string list \<Rightarrow> dslContext \<Rightarrow> config \<Rightarrow> suggestion list \<Rightarrow> counters \<Rightarrow>
     (error + suggestion list) \<times> counters" where
  "checkRules [] i lines context config suggestions cs = (Inr suggestions, cs)"
| "checkRules (r # rs) i lines context config suggestions cs =
     (case checkLines r lines context config [0..<length lines] suggestions (cs i) of
        (Inl err, counter') \<Rightarrow> (Inl err, cs(i := counter'))
      | (Inr suggestions', counter') \<Rightarrow>
          checkRules rs (i + 1) lines context config suggestions' (cs(i := counter')))"

text \<open>
  The summary: \<open>/\[([^\]]+)\]/\<close> gives the type of a message. The counts per type and
  per severity are kept in an association list; the code keeps them in a plain object,
  which counts differently a key that names a member of \<open>Object.prototype\<close>.
\<close>

definition typePattern :: regex where
  "typePattern = seqs [Chr (CHR ''[''), Group 1 (Plus (\<lambda>c. c \<noteq> CHR '']'')), Chr (CHR '']'')]"

fun increment :: "(string \<times> nat) list \<Rightarrow> string \<Rightarrow> (string \<times> nat) list" where
  "increment [] k = [(k, 1)]"
| "increment ((k', n) # m) k = (if k' = k then (k', n + 1) # m else (k', n) # increment m k)"

definition summarize :: "suggestion list \<Rightarrow> summary" where
  "summarize suggestions =
     \<lparr>sum_total = length suggestions,
      sum_byType = foldl (\<lambda>m s. increment m
                            (case rexec typePattern (sug_message s) of
                               None \<Rightarrow> ''unknown''
                             | Some (i, e, cs) \<Rightarrow> capture (sug_message s) cs 1))
                     [] suggestions,
      sum_bySeverity = foldl (\<lambda>m s. increment m (sug_severity s)) [] suggestions\<rparr>"

text \<open>
  \<open>analyzeDSL(code, options)\<close>; the second argument is \<open>options.config\<close>. The rules get
  \<open>config\<close> itself: the entry with the defaults applied, which the loop computes, is
  not used.
\<close>

definition analyzeDSL ::
    "string \<Rightarrow> config option \<Rightarrow> window \<Rightarrow> counters \<Rightarrow> (error + analysisResults) \<times> counters" where
  "analyzeDSL code optionsConfig w cs =
     (let config = (case optionsConfig of
                      Some c \<Rightarrow> c
                    | None \<Rightarrow> (case win_dslSuggestionsConfigData w of
                                 Some c \<Rightarrow> c | None \<Rightarrow> emptyConfig));
          lines = splitLines code;
          context = \<lparr>ctx_lines = lines, ctx_totalLines = length lines, ctx_isInComment = False\<rparr>
      in (case checkRules DSL_RULES 0 lines context config [] cs of
            (Inl err, cs') \<Rightarrow> (Inl err, cs')
          | (Inr suggestions, cs') \<Rightarrow>
              (Inr \<lparr>res_suggestions = suggestions, res_summary = summarize suggestions\<rparr>, cs')))"

text \<open>
  \<open>applyCodeSuggestions\<close>: the loop over the suggestions of one rule, the loop over the
  rules, and the function with its \<open>try\<close> and \<open>catch\<close>.
\<close>

fun applyFixes :: "rule \<Rightarrow> window \<Rightarrow> config \<Rightarrow> suggestion list \<Rightarrow> string \<Rightarrow> error + string" where
  "applyFixes r w fullConfig [] modifiedCode = Inr modifiedCode"
| "applyFixes r w fullConfig (suggestion # rest) modifiedCode =
     (case rule_fix r w modifiedCode suggestion fullConfig of
        Inl err \<Rightarrow> Inl err
      | Inr fixedCode \<Rightarrow>
          applyFixes r w fullConfig rest
            (if fixedCode \<noteq> modifiedCode then fixedCode else modifiedCode))"

fun applyRules ::
    "rule list \<Rightarrow> window \<Rightarrow> config \<Rightarrow> string \<Rightarrow> string \<Rightarrow> counters \<Rightarrow> (error + string) \<times> counters" where
  "applyRules [] w config formSelection modifiedCode cs = (Inr modifiedCode, cs)"
| "applyRules (r # rs) w config formSelection modifiedCode cs =
     (case (case (case cfg_suggestionRules config of
                    None \<Rightarrow> None | Some rules \<Rightarrow> map_of rules (rule_name r),
                  cfg_defaults config) of
              (Some ruleConfig, Some defaults) \<Rightarrow> Some (applyConfigDefaults ruleConfig defaults)
            | (ruleConfig, _) \<Rightarrow> ruleConfig) of
        None \<Rightarrow> applyRules rs w config formSelection modifiedCode cs
      | Some ruleConfig \<Rightarrow>
          if \<not> truthy (rc_enabled ruleConfig) then
            applyRules rs w config formSelection modifiedCode cs
          else if \<not> truthy (rc_autoFixEnabled ruleConfig) then
            applyRules rs w config formSelection modifiedCode cs
          else
            (case analyzeDSL modifiedCode None w cs of
               (Inl err, cs') \<Rightarrow> (Inl err, cs')
             | (Inr analysisResults, cs') \<Rightarrow>
                 (case applyFixes r w
                         \<lparr>cfg_suggestionRules =
                            Some [(rule_name r, ruleConfig\<lparr>rc_fixStyle := Some formSelection\<rparr>)],
                          cfg_defaults = None, cfg_libraries = None\<rparr>
                         (filter (\<lambda>s. sug_rule s = rule_name r) (res_suggestions analysisResults))
                         modifiedCode of
                    Inl err \<Rightarrow> (Inl err, cs')
                  | Inr fixedCode \<Rightarrow> applyRules rs w config formSelection fixedCode cs')))"

definition applyCodeSuggestions :: "string \<Rightarrow> window \<Rightarrow> counters \<Rightarrow> string \<times> counters" where
  "applyCodeSuggestions code w cs =
     (if code = [] \<or> trim code = [] then (code, cs)
      else (case applyRules DSL_RULES w
                   (case win_dslSuggestionsConfigData w of Some c \<Rightarrow> c | None \<Rightarrow> emptyConfig)
                   (getCurrentFormSelection w) code cs of
              (Inl err, cs') \<Rightarrow> (code, cs')
            | (Inr modifiedCode, cs') \<Rightarrow> (modifiedCode, cs')))"

section \<open>Example configurations\<close>

text \<open>
  A rule entry \<open>{enabled: true, autoFixEnabled: true}\<close>, a configuration with the given
  entries of \<open>suggestionRules\<close> and nothing else, a page that has loaded the given
  configuration (or none) and has no form selection, and rule objects whose counters
  are all 0.
\<close>

definition enabledRule :: ruleConfig where
  "enabledRule =
     \<lparr>rc_enabled = Some True, rc_severity = None, rc_label = None, rc_suggestion = None,
      rc_autoFixEnabled = Some True, rc_fixStyle = None, rc_fixTemplates = None,
      rc_skipIfWrappedIn = None, rc_functionNames = None\<rparr>"

definition configOf :: "(string \<times> ruleConfig) list \<Rightarrow> config" where
  "configOf rules = \<lparr>cfg_suggestionRules = Some rules, cfg_defaults = None, cfg_libraries = None\<rparr>"

definition windowOf :: "config option \<Rightarrow> window" where
  "windowOf c =
     \<lparr>win_dslSuggestionsConfigData = c, win_forceFormSelection = None,
      win_currentFormSelection = None, win_selectedRadio = None\<rparr>"

definition noCounters :: counters where
  "noCounters = (\<lambda>i. 0)"

text \<open>The suggestions that \<open>analyzeDSL\<close> returned; none when it threw.\<close>

definition returnedSuggestions :: "(error + analysisResults) \<Rightarrow> suggestion list" where
  "returnedSuggestions r = (case r of Inl err \<Rightarrow> [] | Inr res \<Rightarrow> res_suggestions res)"

section \<open>Notions used in the statements and proofs\<close>

text \<open>
  A rule resets at line 1 when the counter it is entered with has no effect on a check of
  line 1; it tags its suggestions when every suggestion of a check carries the name of
  the rule and the number of the line; \<open>ruleIndex\<close> is the position of the rule of a
  given name in a list of rules.
\<close>

definition resetsAtLine1 :: "rule \<Rightarrow> bool" where
  "resetsAtLine1 r \<longleftrightarrow>
     (\<forall>line allLines context config c.
        rule_check r line (Suc 0) allLines context config c =
        rule_check r line (Suc 0) allLines context config 0)"

definition tagsSuggestions :: "rule \<Rightarrow> bool" where
  "tagsSuggestions r \<longleftrightarrow>
     (\<forall>line n allLines ctx config c out c'.
        rule_check r line n allLines ctx config c = (Inr out, c') \<longrightarrow>
        (\<forall>s \<in> set out. sug_rule s = rule_name r \<and> sug_line s = n))"

definition ruleIndex :: "rule list \<Rightarrow> string \<Rightarrow> nat" where
  "ruleIndex rs n = length (takeWhile (\<lambda>r. rule_name r \<noteq> n) rs)"

text \<open>
  A pattern consumes when every match of it has at least one character. A suggestion's
  \<open>original\<close> is at its column when it is the text of the masked line that starts at
  the column; it spans the column when it is a piece of the masked line that starts at
  or before the column and ends after it. \<open>wellPlaced\<close> collects what holds of the line,
  the column and the original of a suggestion, given the lines of the code.
\<close>

fun consumes :: "regex \<Rightarrow> bool" where
  "consumes (Chr c) = True"
| "consumes (ChrI c) = True"
| "consumes (Cls f) = True"
| "consumes (Seq a b) = (consumes a \<or> consumes b)"
| "consumes (Alt a b) = (consumes a \<and> consumes b)"
| "consumes (Plus f) = True"
| "consumes (Group n a) = consumes a"
| "consumes r = False"

definition originalAtColumn :: "string \<Rightarrow> suggestion \<Rightarrow> bool" where
  "originalAtColumn line s \<longleftrightarrow>
     (case sug_original s of
        None \<Rightarrow> True
      | Some original \<Rightarrow>
          take (length original) (drop (sug_column s) (removeStringLiterals line)) = original)"

definition originalSpansColumn :: "string \<Rightarrow> suggestion \<Rightarrow> bool" where
  "originalSpansColumn line s \<longleftrightarrow>
     (case sug_original s of
        None \<Rightarrow> False
      | Some original \<Rightarrow>
          list_ex (\<lambda>start. sug_column s < start + length original \<and>
                     take (length original) (drop start (removeStringLiterals line)) = original)
            [0..<Suc (sug_column s)])"

definition wellPlaced :: "string list \<Rightarrow> suggestion \<Rightarrow> bool" where
  "wellPlaced lines s \<longleftrightarrow>
     1 \<le> sug_line s \<and> sug_line s \<le> length lines \<and>
     sug_column s < length (lines ! (sug_line s - 1)) \<and>
     (sug_rule s \<in> set [''nonOptimalNodeAccess'', ''nullAccessProtection'', ''mathOperationsParens'']
        \<longrightarrow> originalAtColumn (lines ! (sug_line s - 1)) s) \<and>
     (sug_rule s = ''divisionOperations''
        \<longrightarrow> lines ! (sug_line s - 1) ! sug_column s = CHR ''/'' \<and>
            originalSpansColumn (lines ! (sug_line s - 1)) s)"


section \<open>The masking scan and the in-string test\<close>

lemma removeStringLiterals_step_eq:
  "removeStringLiterals_step line (r, st) i =
     (r @ [if fst st \<or> fst (isInsideString_step line st i) then CHR '' '' else line ! i],
      isInsideString_step line st i)"
  by (cases st) (simp add: removeStringLiterals_step_def isInsideString_step_def Let_def)

lemma removeStringLiterals_scan:
  "foldl (removeStringLiterals_step line) ('''', False, None) [0..<n] =
     (map (\<lambda>i. if fst (foldl (isInsideString_step line) (False, None) [0..<i])
                    \<or> fst (foldl (isInsideString_step line) (False, None) [0..<Suc i])
                 then CHR '' '' else line ! i) [0..<n],
      foldl (isInsideString_step line) (False, None) [0..<n])"
proof (induction n)
  case 0
  show ?case by simp
next
  case (Suc n)
  then show ?case
    by (simp add: removeStringLiterals_step_eq)
qed

lemma removeStringLiterals_length:
  "length (removeStringLiterals line) = length line"
  by (simp add: removeStringLiterals_def removeStringLiterals_scan)

lemma removeStringLiterals_nth:
  assumes "p < length line"
  shows "removeStringLiterals line ! p =
           (if isInsideString line p \<or> isInsideString line (Suc p) then CHR '' '' else line ! p)"
proof -
  have "min p (length line) = p" "min (Suc p) (length line) = Suc p"
    using assms by simp_all
  then show ?thesis
    using assms
    by (simp add: removeStringLiterals_def removeStringLiterals_scan isInsideString_def)
qed

text \<open>
  C5 (as amended). The mask keeps the length of the line, and it writes a space at
  position \<open>p\<close> exactly when the scan is inside a literal before \<open>p\<close> or after \<open>p\<close>:
  \<open>isInsideString line p\<close> is the state before position \<open>p\<close>, so an opening quote is
  masked although \<open>isInsideString\<close> is still false there. Every other position keeps
  its character.
\<close>

theorem C5_masking_agrees_with_isInsideString:
  "length (removeStringLiterals line) = length line \<and>
   (\<forall>p < length line.
      (isInsideString line p \<longrightarrow> removeStringLiterals line ! p = CHR '' '') \<and>
      removeStringLiterals line ! p =
        (if isInsideString line p \<or> isInsideString line (Suc p) then CHR '' '' else line ! p))"
  using removeStringLiterals_length removeStringLiterals_nth by simp

theorem C5_masking_agrees_with_isInsideString_witness:
  "(3::nat) < length ''x=\"a\"'' \<and> isInsideString ''x=\"a\"'' 3 \<and>
   removeStringLiterals ''x=\"a\"'' ! 3 = CHR '' '' \<and>
   length (removeStringLiterals ''x=\"a\"'') = 5"
proof -
  have len: "(3::nat) < length ''x=\"a\"''" by simp
  have ins: "isInsideString ''x=\"a\"'' 3" by code_simp
  show ?thesis
    using len ins C5_masking_agrees_with_isInsideString [of "''x=\"a\"''"] by simp
qed

text \<open>
  C5 (as stated) fails at the quotes of a literal. In the line \<open>"a"\<close> both delimiters are
  masked to a space; \<open>isInsideString\<close> is false at the opening quote (position 0) and true
  at the closing quote (position 2). So the masked positions are not the positions that
  \<open>isInsideString\<close> reports, and the two delimiters are treated differently.
\<close>

theorem C5_quotes_counterexample:
  "removeStringLiterals ''\"a\"'' = ''   '' \<and>
   ''\"a\"'' ! 0 = dquote \<and> \<not> isInsideString ''\"a\"'' 0 \<and>
   ''\"a\"'' ! 2 = dquote \<and> isInsideString ''\"a\"'' 2 \<and>
   \<not> (isInsideString ''\"a\"'' 0 \<longleftrightarrow>
       (removeStringLiterals ''\"a\"'' ! 0 = CHR '' '' \<and> ''\"a\"'' ! 0 = dquote))"
  by code_simp

section \<open>The instance counters\<close>

lemma splitOn_not_Nil: "splitOn sep s \<noteq> []"
  by (induction s) (auto split: list.splits)

lemma checkProlog_resets:
  "checkProlog n (Suc 0) context config c body = checkProlog n (Suc 0) context config 0 body"
  by (simp add: checkProlog_def)

lemma DSL_RULES_reset: "r \<in> set DSL_RULES \<Longrightarrow> resetsAtLine1 r"
  unfolding DSL_RULES_def resetsAtLine1_def
    divisionOperations_check_def queryFunctions_check_def uniqueKey_check_def
    variableNaming_check_def nonOptimalNodeAccess_check_def nullAccessProtection_check_def
    mathOperationsParens_check_def extraneousBlocks_check_def
  using checkProlog_resets by fastforce

lemma checkLines_from_line1:
  assumes "resetsAtLine1 r"
  shows "checkLines r lines context config (0 # rest) acc c =
         checkLines r lines context config (0 # rest) acc c'"
proof -
  have "rule_check r (lines ! 0) (Suc 0) lines context config c =
        rule_check r (lines ! 0) (Suc 0) lines context config c'"
    using assms unfolding resetsAtLine1_def by metis
  then show ?thesis by simp
qed

lemma checkLines_counter_irrelevant:
  assumes "resetsAtLine1 r" "lines \<noteq> []"
  shows "checkLines r lines context config [0..<length lines] acc c =
         checkLines r lines context config [0..<length lines] acc c'"
proof -
  have "[0..<length lines] = 0 # [1..<length lines]"
    using assms(2) by (simp add: upt_conv_Cons)
  then show ?thesis
    using checkLines_from_line1 [OF assms(1)] by metis
qed

lemma checkRules_counters_irrelevant:
  assumes "\<forall>r \<in> set rs. resetsAtLine1 r" "lines \<noteq> []"
  shows "fst (checkRules rs i lines context config acc cs) =
         fst (checkRules rs i lines context config acc cs')"
  using assms(1)
proof (induction rs arbitrary: i acc cs cs')
  case Nil
  show ?case by simp
next
  case (Cons r rs)
  have eq: "checkLines r lines context config [0..<length lines] acc (cs i) =
            checkLines r lines context config [0..<length lines] acc (cs' i)"
    using Cons.prems assms(2) checkLines_counter_irrelevant by simp
  obtain res c1 where res: "checkLines r lines context config [0..<length lines] acc (cs' i) = (res, c1)"
    by (cases "checkLines r lines context config [0..<length lines] acc (cs' i)")
  show ?case
  proof (cases res)
    case (Inl err)
    then show ?thesis using eq res by simp
  next
    case (Inr out)
    have "fst (checkRules rs (i + 1) lines context config out (cs(i := c1))) =
          fst (checkRules rs (i + 1) lines context config out (cs'(i := c1)))"
      using Cons.IH Cons.prems by simp
    then show ?thesis using eq res Inr by simp
  qed
qed

lemma analyzeDSL_counters_irrelevant:
  "fst (analyzeDSL code optionsConfig w cs) = fst (analyzeDSL code optionsConfig w cs')"
proof -
  define config where "config = (case optionsConfig of Some c \<Rightarrow> c
      | None \<Rightarrow> (case win_dslSuggestionsConfigData w of Some c \<Rightarrow> c | None \<Rightarrow> emptyConfig))"
  define ctx where "ctx = \<lparr>ctx_lines = splitLines code, ctx_totalLines = length (splitLines code), ctx_isInComment = False\<rparr>"
  have ne: "splitLines code \<noteq> []"
    by (simp add: splitLines_def splitOn_not_Nil)
  have "fst (checkRules DSL_RULES 0 (splitLines code) ctx config [] cs) =
        fst (checkRules DSL_RULES 0 (splitLines code) ctx config [] cs')"
    using checkRules_counters_irrelevant [OF _ ne] DSL_RULES_reset by blast
  then show ?thesis
    unfolding analyzeDSL_def Let_def config_def [symmetric] ctx_def [symmetric]
    by (auto split: prod.splits sum.splits)
qed

lemma pushEach_foldl_all:
  assumes "\<And>m mk n. body m = Some mk \<Longrightarrow> P (mk n)" "\<forall>s \<in> set acc. P s"
  shows "\<forall>s \<in> set (fst (foldl (\<lambda>(suggestions, counter) m.
              case body m of
                None \<Rightarrow> (suggestions, counter)
              | Some mk \<Rightarrow> (suggestions @ [mk (counter + 1)], counter + 1))
       (acc, c) ms)). P s"
  using assms(2)
proof (induction ms arbitrary: acc c)
  case Nil
  then show ?case by simp
next
  case (Cons m ms)
  show ?case
  proof (cases "body m")
    case None
    then show ?thesis using Cons by simp
  next
    case (Some mk)
    have "\<forall>s \<in> set (acc @ [mk (c + 1)]). P s"
      using Cons.prems assms(1) [OF Some] by simp
    from Cons.IH [OF this] show ?thesis using Some by simp
  qed
qed

lemma returning_pushEach_all:
  assumes "returning (pushEach body ms c0) = (Inr out, c')"
    and "\<And>m mk n. body m = Some mk \<Longrightarrow> P (mk n)"
  shows "\<forall>s \<in> set out. P s"
proof -
  have "out = fst (pushEach body ms c0)"
    using assms(1) by (auto simp: returning_def)
  moreover have "\<forall>s \<in> set (fst (pushEach body ms c0)). P s"
    unfolding pushEach_def
    by (rule pushEach_foldl_all) (use assms(2) in auto)
  ultimately show ?thesis by simp
qed

lemma checkProlog_rule:
  assumes "checkProlog name n ctx config c body = (Inr out, c')"
    and "\<And>ruleConfig c0. body ruleConfig c0 = (Inr out, c') \<Longrightarrow> Q out"
    and "Q []"
  shows "Q out"
  using assms unfolding checkProlog_def Let_def
  by (auto split: if_splits option.splits)

lemma queryFunctions_tags:
  "queryFunctions_check line n allLines ctx config c = (Inr out, c') \<Longrightarrow>
   \<forall>s \<in> set out. sug_rule s = ''queryFunctions'' \<and> sug_line s = n"
  unfolding queryFunctions_check_def
  apply (erule checkProlog_rule)
   apply (simp only: Let_def split: if_splits)
    apply (erule returning_pushEach_all)
    apply (auto split: if_splits)
  done

lemma uniqueKey_tags:
  "uniqueKey_check line n allLines ctx config c = (Inr out, c') \<Longrightarrow>
   \<forall>s \<in> set out. sug_rule s = ''uniqueKey'' \<and> sug_line s = n"
  unfolding uniqueKey_check_def
  apply (erule checkProlog_rule)
   apply (erule returning_pushEach_all)
   apply (auto split: if_splits)
  done

lemma variableNaming_tags:
  "variableNaming_check line n allLines ctx config c = (Inr out, c') \<Longrightarrow>
   \<forall>s \<in> set out. sug_rule s = ''variableNaming'' \<and> sug_line s = n"
  unfolding variableNaming_check_def
  apply (erule checkProlog_rule)
   apply (simp only: Let_def)
   apply (erule returning_pushEach_all)
   apply (auto simp: Let_def split: if_splits)
  done

lemma nonOptimalNodeAccess_tags:
  "nonOptimalNodeAccess_check line n allLines ctx config c = (Inr out, c') \<Longrightarrow>
   \<forall>s \<in> set out. sug_rule s = ''nonOptimalNodeAccess'' \<and> sug_line s = n"
  unfolding nonOptimalNodeAccess_check_def
  apply (erule checkProlog_rule)
   apply (erule returning_pushEach_all)
   apply (auto split: if_splits)
  done

lemma nullAccessProtection_tags:
  "nullAccessProtection_check line n allLines ctx config c = (Inr out, c') \<Longrightarrow>
   \<forall>s \<in> set out. sug_rule s = ''nullAccessProtection'' \<and> sug_line s = n"
  unfolding nullAccessProtection_check_def
  apply (erule checkProlog_rule)
   apply (simp only: Let_def)
   apply (erule returning_pushEach_all)
   apply (auto simp: Let_def split: if_splits)
  done

lemma mathOperationsParens_tags:
  "mathOperationsParens_check line n allLines ctx config c = (Inr out, c') \<Longrightarrow>
   \<forall>s \<in> set out. sug_rule s = ''mathOperationsParens'' \<and> sug_line s = n"
  unfolding mathOperationsParens_check_def
  apply (erule checkProlog_rule)
   apply (simp only: Let_def)
   apply (erule returning_pushEach_all)
   apply (auto simp: Let_def split: if_splits)
  done

lemma extraneousBlocks_tags:
  "extraneousBlocks_check line n allLines ctx config c = (Inr out, c') \<Longrightarrow>
   \<forall>s \<in> set out. sug_rule s = ''extraneousBlocks'' \<and> sug_line s = n"
  unfolding extraneousBlocks_check_def
  apply (erule checkProlog_rule)
   apply (auto simp: Let_def extraneousBlocks_checkBlockFunction_def extraneousBlocks_braces_def
      split: if_splits prod.splits sum.splits option.splits)
  done


lemma divisionOperations_matches_spec:
  "divisionOperations_matches line lws n rc ms acc processed c = (Inr out, c') \<Longrightarrow>
   \<exists>new. out = acc @ new \<and> c' = c + length new \<and>
     map sug_instanceNumber new = [c + 1..<c + 1 + length new] \<and>
     (\<forall>s \<in> set new. sug_rule s = ''divisionOperations'' \<and> sug_line s = n \<and>
        sug_column s \<in> fst ` set ms \<and>
        sug_original s = Some (divisionOperations_extractExpression lws (sug_column s)))"
proof (induction ms arbitrary: acc processed c)
  case Nil
  then show ?case by simp
next
  case (Cons pm ms)
  obtain divPosition m where pm: "pm = (divPosition, m)" by (cases pm)
  define expression where "expression = divisionOperations_extractExpression lws divPosition"
  define sg where "sg = divisionOperations_suggestion n divPosition expression rc (c + 1)"
  have sg_facts: "sug_rule sg = ''divisionOperations''" "sug_line sg = n" "sug_column sg = divPosition"
    "sug_original sg = Some expression" "sug_instanceNumber sg = c + 1"
    by (simp_all add: sg_def divisionOperations_suggestion_def)
  consider (skip) "divisionOperations_matches line lws n rc ms acc processed c = (Inr out, c')"
    | (wrapped) "divisionOperations_matches line lws n rc ms acc (expression # processed) c = (Inr out, c')"
    | (push) "divisionOperations_matches line lws n rc ms (acc @ [sg]) (expression # processed) (c + 1) = (Inr out, c')"
    using Cons.prems unfolding pm
    by (auto simp: Let_def expression_def sg_def split: if_splits sum.splits bool.splits)
  then show ?case
  proof cases
    case skip
    from Cons.IH [OF this] show ?thesis by auto
  next
    case wrapped
    from Cons.IH [OF this] show ?thesis by auto
  next
    case push
    from Cons.IH [OF this] obtain new where new: "out = (acc @ [sg]) @ new" "c' = c + 1 + length new"
      "map sug_instanceNumber new = [c + 1 + 1..<c + 1 + 1 + length new]"
      "\<forall>s \<in> set new. sug_rule s = ''divisionOperations'' \<and> sug_line s = n \<and>
        sug_column s \<in> fst ` set ms \<and>
        sug_original s = Some (divisionOperations_extractExpression lws (sug_column s))"
      by auto
    have "map sug_instanceNumber (sg # new) = [c + 1..<c + 1 + length (sg # new)]"
      using new(3) sg_facts(5) by (simp add: upt_conv_Cons del: upt_Suc)
    moreover have "\<forall>s \<in> set (sg # new). sug_rule s = ''divisionOperations'' \<and> sug_line s = n \<and>
        sug_column s \<in> fst ` set (pm # ms) \<and>
        sug_original s = Some (divisionOperations_extractExpression lws (sug_column s))"
      using new(4) sg_facts pm expression_def by auto
    ultimately show ?thesis
      using new(1,2) by (intro exI [of _ "sg # new"]) simp
  qed
qed


lemma checkProlog_cases:
  assumes "checkProlog name n ctx config c body = (Inr out, c')"
  obtains (enabled) rules ruleConfig where "cfg_suggestionRules config = Some rules"
      "map_of rules name = Some ruleConfig" "truthy (rc_enabled ruleConfig)"
      "body ruleConfig (if n = 1 then 0 else c) = (Inr out, c')"
    | (nothing) "out = []" "c' = (if n = 1 then 0 else c)"
  using assms unfolding checkProlog_def Let_def
  by (auto split: if_splits option.splits)

lemma divisionOperations_check_spec:
  assumes "divisionOperations_check line n allLines ctx config c = (Inr out, c')"
  shows "c' = (if n = 1 then 0 else c) + length out \<and>
     map sug_instanceNumber out =
       [(if n = 1 then 0 else c) + 1..<(if n = 1 then 0 else c) + 1 + length out] \<and>
     (\<forall>s \<in> set out. sug_rule s = ''divisionOperations'' \<and> sug_line s = n \<and>
        sug_column s \<in> fst ` set (execAll divisionPattern (removeStringLiterals line)) \<and>
        sug_original s =
          Some (divisionOperations_extractExpression (removeStringLiterals line) (sug_column s)))"
  using assms unfolding divisionOperations_check_def
proof (cases rule: checkProlog_cases)
  case (enabled rules ruleConfig)
  show ?thesis
  proof (cases "indexOf line ''/*'' \<noteq> None \<and> indexOf line ''*/'' \<noteq> None")
    case True
    then show ?thesis using enabled(4) by auto
  next
    case False
    then have "divisionOperations_matches line (removeStringLiterals line) n ruleConfig
       (execAll divisionPattern (removeStringLiterals line)) [] [] (if n = 1 then 0 else c) = (Inr out, c')"
      using enabled(4) by (simp split: if_splits)
    from divisionOperations_matches_spec [OF this] show ?thesis by auto
  qed
next
  case nothing
  then show ?thesis by simp
qed

lemma divisionOperations_tags:
  "divisionOperations_check line n allLines ctx config c = (Inr out, c') \<Longrightarrow>
   \<forall>s \<in> set out. sug_rule s = ''divisionOperations'' \<and> sug_line s = n"
  using divisionOperations_check_spec by blast

lemma DSL_RULES_tag: "r \<in> set DSL_RULES \<Longrightarrow> tagsSuggestions r"
  unfolding DSL_RULES_def tagsSuggestions_def
  using divisionOperations_tags queryFunctions_tags uniqueKey_tags variableNaming_tags
    nonOptimalNodeAccess_tags nullAccessProtection_tags mathOperationsParens_tags
    extraneousBlocks_tags
  by auto

lemma checkLines_tags:
  assumes "tagsSuggestions r" "sorted idxs"
    "checkLines r lines ctx config idxs acc c = (Inr out, c')"
  shows "\<exists>new. out = acc @ new \<and>
     (\<forall>s \<in> set new. sug_rule s = rule_name r \<and> sug_line s \<in> Suc ` set idxs) \<and>
     sorted (map sug_line new)"
  using assms(2,3)
proof (induction idxs arbitrary: acc c)
  case Nil
  then show ?case by simp
next
  case (Cons i idxs)
  obtain res c1 where res: "rule_check r (lines ! i) (i + 1) lines ctx config c = (res, c1)"
    by (cases "rule_check r (lines ! i) (i + 1) lines ctx config c")
  show ?case
  proof (cases res)
    case (Inl err)
    then show ?thesis using Cons.prems(2) res by simp
  next
    case (Inr ls)
    have tag: "\<forall>s \<in> set ls. sug_rule s = rule_name r \<and> sug_line s = i + 1"
      using assms(1) res Inr unfolding tagsSuggestions_def by blast
    have rest: "checkLines r lines ctx config idxs (acc @ ls) c1 = (Inr out, c')"
      using Cons.prems(2) res Inr by simp
    have "sorted idxs" using Cons.prems(1) by simp
    from Cons.IH [OF this rest] obtain new where new: "out = (acc @ ls) @ new"
      "\<forall>s \<in> set new. sug_rule s = rule_name r \<and> sug_line s \<in> Suc ` set idxs"
      "sorted (map sug_line new)" by blast
    have le: "\<forall>j \<in> set idxs. i \<le> j" using Cons.prems(1) by simp
    have "sorted (map sug_line (ls @ new))"
      unfolding map_append sorted_append
    proof (intro conjI ballI)
      show "sorted (map sug_line ls)"
        using tag by (induction ls) auto
      show "sorted (map sug_line new)" by (rule new(3))
      fix x y assume "x \<in> set (map sug_line ls)" "y \<in> set (map sug_line new)"
      then show "x \<le> y" using tag new(2) le by auto
    qed
    moreover have "\<forall>s \<in> set (ls @ new). sug_rule s = rule_name r \<and> sug_line s \<in> Suc ` set (i # idxs)"
      using tag new(2) by auto
    ultimately show ?thesis using new(1) by (intro exI [of _ "ls @ new"]) simp
  qed
qed

lemma ruleIndex_Cons_same: "ruleIndex (r # rs) (rule_name r) = 0"
  by (simp add: ruleIndex_def)

lemma ruleIndex_Cons_other: "n \<noteq> rule_name r \<Longrightarrow> ruleIndex (r # rs) n = Suc (ruleIndex rs n)"
  by (auto simp: ruleIndex_def)

lemma checkRules_order:
  assumes "\<forall>r \<in> set rs. tagsSuggestions r" "distinct (map rule_name rs)"
    "checkRules rs i lines ctx config acc cs = (Inr out, cs')"
  shows "\<exists>new. out = acc @ new \<and>
     (\<forall>s \<in> set new. sug_rule s \<in> rule_name ` set rs \<and> 1 \<le> sug_line s \<and> sug_line s \<le> length lines) \<and>
     sorted (map (\<lambda>s. (ruleIndex rs (sug_rule s), sug_line s)) new)"
  using assms
proof (induction rs arbitrary: i acc cs)
  case Nil
  then show ?case by simp
next
  case (Cons r rs)
  obtain res c1 where res: "checkLines r lines ctx config [0..<length lines] acc (cs i) = (res, c1)"
    by (cases "checkLines r lines ctx config [0..<length lines] acc (cs i)")
  show ?case
  proof (cases res)
    case (Inl err)
    then show ?thesis using Cons.prems(3) res by simp
  next
    case (Inr out1)
    have "tagsSuggestions r" using Cons.prems(1) by simp
    from checkLines_tags [OF this _ res [unfolded Inr]]
    obtain new1 where new1: "out1 = acc @ new1"
      "\<forall>s \<in> set new1. sug_rule s = rule_name r \<and> sug_line s \<in> Suc ` set [0..<length lines]"
      "sorted (map sug_line new1)" by auto
    have rest: "checkRules rs (i + 1) lines ctx config out1 (cs(i := c1)) = (Inr out, cs')"
      using Cons.prems(3) res Inr by simp
    have "\<forall>r \<in> set rs. tagsSuggestions r" "distinct (map rule_name rs)"
      using Cons.prems(1,2) by simp_all
    from Cons.IH [OF this rest] obtain new2 where new2: "out = out1 @ new2"
      "\<forall>s \<in> set new2. sug_rule s \<in> rule_name ` set rs \<and> 1 \<le> sug_line s \<and> sug_line s \<le> length lines"
      "sorted (map (\<lambda>s. (ruleIndex rs (sug_rule s), sug_line s)) new2)" by blast
    have other: "\<forall>s \<in> set new2. sug_rule s \<noteq> rule_name r"
      using new2(2) Cons.prems(2) by (metis distinct.simps(2) list.simps(9) list.set_map)
    have k1: "map (\<lambda>s. (ruleIndex (r # rs) (sug_rule s), sug_line s)) new1 = map (\<lambda>s. (0, sug_line s)) new1"
      using new1(2) by (simp add: ruleIndex_Cons_same)
    have k2: "map (\<lambda>s. (ruleIndex (r # rs) (sug_rule s), sug_line s)) new2 =
              map (\<lambda>p. (Suc (fst p), snd p)) (map (\<lambda>s. (ruleIndex rs (sug_rule s), sug_line s)) new2)"
      using other by (simp add: ruleIndex_Cons_other)
    have s1: "sorted (map (\<lambda>s. (0::nat, sug_line s)) new1)"
      using new1(3) by (induction new1) (auto simp: less_eq_prod_def)
    have s2: "sorted (map (\<lambda>p. (Suc (fst p), snd p)) (map (\<lambda>s. (ruleIndex rs (sug_rule s), sug_line s)) new2))"
      using new2(3) by (induction new2) (auto simp: less_eq_prod_def)
    have "sorted (map (\<lambda>s. (ruleIndex (r # rs) (sug_rule s), sug_line s)) (new1 @ new2))"
      unfolding map_append sorted_append k1 k2
      using s1 s2 by (auto simp: less_eq_prod_def)
    moreover have "\<forall>s \<in> set (new1 @ new2). sug_rule s \<in> rule_name ` set (r # rs) \<and> 1 \<le> sug_line s \<and> sug_line s \<le> length lines"
      using new1(2) new2(2) by auto
    ultimately show ?thesis using new1(1) new2(1) by (intro exI [of _ "new1 @ new2"]) simp
  qed
qed

lemma DSL_RULES_distinct: "distinct (map rule_name DSL_RULES)"
  by (simp add: DSL_RULES_def)

lemma analyzeDSL_order:
  assumes "analyzeDSL code optionsConfig w cs = (Inr res, cs')"
  shows "(\<forall>s \<in> set (res_suggestions res). sug_rule s \<in> rule_name ` set DSL_RULES \<and>
            1 \<le> sug_line s \<and> sug_line s \<le> length (splitLines code)) \<and>
     sorted (map (\<lambda>s. (ruleIndex DSL_RULES (sug_rule s), sug_line s)) (res_suggestions res))"
proof -
  define config where "config = (case optionsConfig of Some c \<Rightarrow> c
      | None \<Rightarrow> (case win_dslSuggestionsConfigData w of Some c \<Rightarrow> c | None \<Rightarrow> emptyConfig))"
  define ctx where "ctx = \<lparr>ctx_lines = splitLines code, ctx_totalLines = length (splitLines code), ctx_isInComment = False\<rparr>"
  have "checkRules DSL_RULES 0 (splitLines code) ctx config [] cs = (Inr (res_suggestions res), cs')"
    using assms unfolding analyzeDSL_def Let_def config_def [symmetric] ctx_def [symmetric]
    by (auto split: prod.splits sum.splits)
  from checkRules_order [OF _ DSL_RULES_distinct this] DSL_RULES_tag
  show ?thesis by auto
qed

text \<open>
  What every rule does without its configuration: with no \<open>suggestionRules\<close> object the
  read \<open>config.suggestionRules.<name>\<close> throws (outside a comment, where the rule has already
  returned); with the object but no entry for the rule, \<open>check\<close> returns no suggestion and
  \<open>fix\<close> returns the code.
\<close>

lemma DSL_RULES_check_throws:
  assumes "r \<in> set DSL_RULES" "cfg_suggestionRules config = None" "\<not> ctx_isInComment ctx"
  shows "fst (rule_check r line n allLines ctx config c) = Inl TypeError"
  using assms unfolding DSL_RULES_def
  by (auto simp: divisionOperations_check_def queryFunctions_check_def uniqueKey_check_def
      variableNaming_check_def nonOptimalNodeAccess_check_def nullAccessProtection_check_def
      mathOperationsParens_check_def extraneousBlocks_check_def checkProlog_def Let_def)

lemma DSL_RULES_check_no_entry:
  assumes "r \<in> set DSL_RULES" "cfg_suggestionRules config = Some rules"
    "map_of rules (rule_name r) = None"
  shows "fst (rule_check r line n allLines ctx config c) = Inr []"
  using assms unfolding DSL_RULES_def
  by (auto simp: divisionOperations_check_def queryFunctions_check_def uniqueKey_check_def
      variableNaming_check_def nonOptimalNodeAccess_check_def nullAccessProtection_check_def
      mathOperationsParens_check_def extraneousBlocks_check_def checkProlog_def Let_def)

lemma DSL_RULES_fix_no_entry:
  assumes "r \<in> set DSL_RULES" "cfg_suggestionRules config = Some rules"
    "map_of rules (rule_name r) = None"
  shows "rule_fix r w code s config = Inr code"
  using assms unfolding DSL_RULES_def
  by (auto simp: divisionOperations_fix_def queryFunctions_fix_def uniqueKey_fix_def
      variableNaming_fix_def nonOptimalNodeAccess_fix_def nullAccessProtection_fix_def
      mathOperationsParens_fix_def extraneousBlocks_fix_def fixProlog_def)

text \<open>
  \<open>variableNaming.check\<close> never sets \<open>fixed\<close>, and \<open>variableNaming.fix\<close> returns the code
  as it is for a suggestion without \<open>fixed\<close>.
\<close>

lemma variableNaming_check_no_fixed:
  "variableNaming_check line n allLines ctx config c = (Inr out, c') \<Longrightarrow>
   \<forall>s \<in> set out. sug_fixed s = None"
  unfolding variableNaming_check_def
  apply (erule checkProlog_rule)
   apply (simp only: Let_def)
   apply (erule returning_pushEach_all)
   apply (auto simp: Let_def split: if_splits)
  done

lemma variableNaming_fix_without_fixed:
  "sug_fixed s = None \<Longrightarrow> cfg_suggestionRules config \<noteq> None \<Longrightarrow>
   variableNaming_fix w code s config = Inr code"
  unfolding variableNaming_fix_def fixProlog_def
  by (auto split: option.splits)

section \<open>The claims about the engine and the rules\<close>

text \<open>
  C9. \<open>analyzeDSL\<close> is deterministic: what it returns (the suggestions with their
  instance numbers, and the summary, or the exception) does not depend on the values
  that the instance counters of the rule objects have when it is called, because every
  rule resets its counter when it checks line 1; so a second call, which starts with
  the counters that the first call left, returns the same as the first.
\<close>

theorem C9_analyzeDSL_deterministic:
  "fst (analyzeDSL code optionsConfig w cs) = fst (analyzeDSL code optionsConfig w cs') \<and>
   fst (analyzeDSL code optionsConfig w (snd (analyzeDSL code optionsConfig w cs))) =
     fst (analyzeDSL code optionsConfig w cs)"
  using analyzeDSL_counters_irrelevant by blast

text \<open>The same at one document with one division: two calls in a row agree.\<close>

theorem C9_analyzeDSL_deterministic_witness:
  "fst (analyzeDSL ''a = b / c'' None (windowOf (Some (configOf [(''divisionOperations'', enabledRule)])))
          (snd (analyzeDSL ''a = b / c'' None
                  (windowOf (Some (configOf [(''divisionOperations'', enabledRule)]))) noCounters))) =
   fst (analyzeDSL ''a = b / c'' None (windowOf (Some (configOf [(''divisionOperations'', enabledRule)])))
          noCounters) \<and>
   map sug_instanceNumber (returnedSuggestions (fst (analyzeDSL ''a = b / c'' None
      (windowOf (Some (configOf [(''divisionOperations'', enabledRule)]))) noCounters))) = [1]"
proof -
  have "map sug_instanceNumber (returnedSuggestions (fst (analyzeDSL ''a = b / c'' None
      (windowOf (Some (configOf [(''divisionOperations'', enabledRule)]))) noCounters))) = [1]"
    by code_simp
  then show ?thesis
    using C9_analyzeDSL_deterministic [of "''a = b / c''" None
        "windowOf (Some (configOf [(''divisionOperations'', enabledRule)]))" noCounters noCounters]
    by simp
qed

text \<open>
  C8. The suggestions that \<open>analyzeDSL\<close> returns are in rule-major, then line-major
  order: the list is sorted by the pair (position of the reporting rule in \<open>DSL_RULES\<close>,
  line), ordered lexicographically. The engine does not sort by line: in a document with
  divisions on lines 1 and 3 and a badly named variable on line 2, the list has the
  lines 1, 3, 2.
\<close>

theorem C8_rule_major_then_line_major:
  "(fst (analyzeDSL code optionsConfig w cs) = Inr res \<longrightarrow>
      sorted (map (\<lambda>s. (ruleIndex DSL_RULES (sug_rule s), sug_line s)) (res_suggestions res))) \<and>
   map (\<lambda>s. (sug_rule s, sug_line s))
     (returnedSuggestions (fst (analyzeDSL ''a = b / c\<newline>My_v = 1\<newline>d = e / f'' None
        (windowOf (Some (configOf [(''divisionOperations'', enabledRule),
                                   (''variableNaming'', enabledRule)]))) noCounters))) =
     [(''divisionOperations'', 1), (''divisionOperations'', 3), (''variableNaming'', 2)]"
proof
  show "fst (analyzeDSL code optionsConfig w cs) = Inr res \<longrightarrow>
      sorted (map (\<lambda>s. (ruleIndex DSL_RULES (sug_rule s), sug_line s)) (res_suggestions res))"
    using analyzeDSL_order [of code optionsConfig w cs res "snd (analyzeDSL code optionsConfig w cs)"]
    by (metis prod.collapse)
  show "map (\<lambda>s. (sug_rule s, sug_line s))
     (returnedSuggestions (fst (analyzeDSL ''a = b / c\<newline>My_v = 1\<newline>d = e / f'' None
        (windowOf (Some (configOf [(''divisionOperations'', enabledRule),
                                   (''variableNaming'', enabledRule)]))) noCounters))) =
     [(''divisionOperations'', 1), (''divisionOperations'', 3), (''variableNaming'', 2)]"
    by code_simp
qed

text \<open>The order at that document.\<close>

theorem C8_rule_major_then_line_major_witness:
  "fst (analyzeDSL ''a = b / c\<newline>My_v = 1\<newline>d = e / f'' None
        (windowOf (Some (configOf [(''divisionOperations'', enabledRule),
                                   (''variableNaming'', enabledRule)]))) noCounters) =
     Inr (projr (fst (analyzeDSL ''a = b / c\<newline>My_v = 1\<newline>d = e / f'' None
        (windowOf (Some (configOf [(''divisionOperations'', enabledRule),
                                   (''variableNaming'', enabledRule)]))) noCounters))) \<and>
   sorted (map (\<lambda>s. (ruleIndex DSL_RULES (sug_rule s), sug_line s))
     (res_suggestions (projr (fst (analyzeDSL ''a = b / c\<newline>My_v = 1\<newline>d = e / f'' None
        (windowOf (Some (configOf [(''divisionOperations'', enabledRule),
                                   (''variableNaming'', enabledRule)]))) noCounters)))))"
proof -
  have h: "fst (analyzeDSL ''a = b / c\<newline>My_v = 1\<newline>d = e / f'' None
        (windowOf (Some (configOf [(''divisionOperations'', enabledRule),
                                   (''variableNaming'', enabledRule)]))) noCounters) =
     Inr (projr (fst (analyzeDSL ''a = b / c\<newline>My_v = 1\<newline>d = e / f'' None
        (windowOf (Some (configOf [(''divisionOperations'', enabledRule),
                                   (''variableNaming'', enabledRule)]))) noCounters)))"
    by code_simp
  show ?thesis
    using h C8_rule_major_then_line_major [of "''a = b / c\<newline>My_v = 1\<newline>d = e / f''" None
        "windowOf (Some (configOf [(''divisionOperations'', enabledRule),
                                   (''variableNaming'', enabledRule)]))" noCounters
        "projr (fst (analyzeDSL ''a = b / c\<newline>My_v = 1\<newline>d = e / f'' None
        (windowOf (Some (configOf [(''divisionOperations'', enabledRule),
                                   (''variableNaming'', enabledRule)]))) noCounters))"]
    by blast
qed

text \<open>
  C10. \<open>applyCodeSuggestions\<close> returns its input when the input is empty or only white
  space, and when the loop over the rules throws (in \<open>analyzeDSL\<close> or in a \<open>fix\<close>): the
  handler returns the original code, never a partly fixed one.
\<close>

theorem C10_applyCodeSuggestions_returns_input_on_error:
  "(code = [] \<or> trim code = [] \<longrightarrow> fst (applyCodeSuggestions code w cs) = code) \<and>
   (\<forall>err. fst (applyRules DSL_RULES w
                 (case win_dslSuggestionsConfigData w of Some c \<Rightarrow> c | None \<Rightarrow> emptyConfig)
                 (getCurrentFormSelection w) code cs) = Inl err \<longrightarrow>
          fst (applyCodeSuggestions code w cs) = code)"
  unfolding applyCodeSuggestions_def
  by (auto split: prod.splits sum.splits)


text \<open>
  Both cases at concrete inputs: a code of two spaces, and a division whose \<open>fix\<close>
  throws because \<open>skipIfWrappedIn\<close> is not empty.
\<close>

theorem C10_applyCodeSuggestions_returns_input_on_error_witness:
  "trim ''  '' = [] \<and>
   fst (applyCodeSuggestions ''  '' (windowOf None) noCounters) = ''  '' \<and>
   fst (applyRules DSL_RULES
          (windowOf (Some (configOf [(''divisionOperations'',
                             enabledRule\<lparr>rc_skipIfWrappedIn := Some [''ifNaN'']\<rparr>)])))
          (configOf [(''divisionOperations'', enabledRule\<lparr>rc_skipIfWrappedIn := Some [''ifNaN'']\<rparr>)])
          ''traditional'' ''r = a / b'' noCounters) = Inl TypeError \<and>
   fst (applyCodeSuggestions ''r = a / b''
          (windowOf (Some (configOf [(''divisionOperations'',
                             enabledRule\<lparr>rc_skipIfWrappedIn := Some [''ifNaN'']\<rparr>)])))
          noCounters) = ''r = a / b''"
proof -
  have t: "trim ''  '' = []" by code_simp
  have e: "fst (applyRules DSL_RULES
          (windowOf (Some (configOf [(''divisionOperations'',
                             enabledRule\<lparr>rc_skipIfWrappedIn := Some [''ifNaN'']\<rparr>)])))
          (configOf [(''divisionOperations'', enabledRule\<lparr>rc_skipIfWrappedIn := Some [''ifNaN'']\<rparr>)])
          ''traditional'' ''r = a / b'' noCounters) = Inl TypeError"
    by code_simp
  have w: "(case win_dslSuggestionsConfigData (windowOf (Some (configOf [(''divisionOperations'',
                             enabledRule\<lparr>rc_skipIfWrappedIn := Some [''ifNaN'']\<rparr>)]))) of
             Some c \<Rightarrow> c | None \<Rightarrow> emptyConfig) =
           configOf [(''divisionOperations'', enabledRule\<lparr>rc_skipIfWrappedIn := Some [''ifNaN'']\<rparr>)]"
    by (simp add: windowOf_def)
  have f: "getCurrentFormSelection (windowOf (Some (configOf [(''divisionOperations'',
                             enabledRule\<lparr>rc_skipIfWrappedIn := Some [''ifNaN'']\<rparr>)]))) = ''traditional''"
    by (simp add: windowOf_def getCurrentFormSelection_def)
  show ?thesis
    using t e
      C10_applyCodeSuggestions_returns_input_on_error [of "''  ''" "windowOf None" noCounters]
      C10_applyCodeSuggestions_returns_input_on_error [of "''r = a / b''"
        "windowOf (Some (configOf [(''divisionOperations'',
                             enabledRule\<lparr>rc_skipIfWrappedIn := Some [''ifNaN'']\<rparr>)]))" noCounters]
    unfolding w f by blast
qed





text \<open>
  C1 fails on the code. With the null-access rule enabled and fixable,
  \<open>applyCodeSuggestions\<close> turns \<open>x = a.b\<close> into
  \<open>x = ifNull(a.b, DEF_VAL_NULL_SAFETY_1)\<close>, and applied to that result it wraps
  \<open>a.b\<close> once more: the \<open>fix\<close> of the rule replaces every occurrence of the
  expression and has no test for an occurrence that is already wrapped.
\<close>

theorem C1_second_fix_pass_wraps_again:
  "fst (applyCodeSuggestions ''x = a.b''
          (windowOf (Some (configOf [(''nullAccessProtection'',
             enabledRule\<lparr>rc_fixTemplates := Some
               [(''traditional'', ''ifNull({expression}, {defaultAltValue})''),
                (''method'', ''({expression}).ifNull({defaultAltValue})'')]\<rparr>)])))
          noCounters) = ''x = ifNull(a.b, DEF_VAL_NULL_SAFETY_1)'' \<and>
   fst (applyCodeSuggestions ''x = ifNull(a.b, DEF_VAL_NULL_SAFETY_1)''
          (windowOf (Some (configOf [(''nullAccessProtection'',
             enabledRule\<lparr>rc_fixTemplates := Some
               [(''traditional'', ''ifNull({expression}, {defaultAltValue})''),
                (''method'', ''({expression}).ifNull({defaultAltValue})'')]\<rparr>)])))
          noCounters) =
     ''x = ifNull(ifNull(a.b, DEF_VAL_NULL_SAFETY_1), DEF_VAL_NULL_SAFETY_1)''"
  by code_simp

text \<open>
  C2 fails on the code for the method-chain form. With \<open>skipIfWrappedIn: ["protect"]\<close>
  the line \<open>result = protect(total / count, 0)\<close> yields no suggestion, as the claim
  says, and the line \<open>result = (total / count).protect(0)\<close> yields one:
  \<open>_isAlreadyWrapped\<close> only looks for \<open>fn(\<close> before the expression.
\<close>

theorem C2_method_chain_form_not_recognized:
  "returnedSuggestions (fst (analyzeDSL ''result = protect(total / count, 0)'' None
      (windowOf (Some (configOf [(''divisionOperations'',
         enabledRule\<lparr>rc_skipIfWrappedIn := Some [''protect'']\<rparr>)]))) noCounters)) = [] \<and>
   map (\<lambda>s. (sug_rule s, sug_line s, sug_column s, sug_original s))
     (returnedSuggestions (fst (analyzeDSL ''result = (total / count).protect(0)'' None
        (windowOf (Some (configOf [(''divisionOperations'',
           enabledRule\<lparr>rc_skipIfWrappedIn := Some [''protect'']\<rparr>)]))) noCounters))) =
     [(''divisionOperations'', 1, 16, Some ''total / count'')]"
  by code_simp

text \<open>
  C3 fails on the code. The finding for \<open>var my_variable = 1;\<close> has \<open>original\<close> and
  no \<open>fixed\<close>, the \<open>fix\<close> of the rule returns the code as it is when \<open>fixed\<close> is
  absent, and \<open>applyCodeSuggestions\<close> returns the document unchanged.
\<close>

theorem C3_naming_fix_changes_nothing:
  "map (\<lambda>s. (sug_rule s, sug_original s, sug_fixed s))
     (returnedSuggestions (fst (analyzeDSL ''var my_variable = 1;'' None
        (windowOf (Some (configOf [(''variableNaming'', enabledRule)]))) noCounters))) =
     [(''variableNaming'', Some ''my_variable'', None)] \<and>
   fst (applyCodeSuggestions ''var my_variable = 1;''
          (windowOf (Some (configOf [(''variableNaming'', enabledRule)]))) noCounters) =
     ''var my_variable = 1;''"
  by code_simp

text \<open>
  C4 fails on the code when the configuration is missing. With the configuration \<open>{}\<close>
  (no \<open>suggestionRules\<close>) the \<open>check\<close> of each of the eight rules throws, and so does
  \<open>analyzeDSL\<close> when no configuration was loaded; with a \<open>suggestionRules\<close> that has no
  entry for the rule, each \<open>check\<close> returns the empty list.
\<close>

theorem C4_missing_config_throws:
  "map (\<lambda>r. fst (rule_check r ''x = 1'' 1 [''x = 1'']
                   \<lparr>ctx_lines = [''x = 1''], ctx_totalLines = 1, ctx_isInComment = False\<rparr>
                   emptyConfig 0)) DSL_RULES = replicate 8 (Inl TypeError) \<and>
   fst (analyzeDSL ''x = 1'' None (windowOf None) noCounters) = Inl TypeError \<and>
   map (\<lambda>r. fst (rule_check r ''x = 1'' 1 [''x = 1'']
                   \<lparr>ctx_lines = [''x = 1''], ctx_totalLines = 1, ctx_isInComment = False\<rparr>
                   (configOf []) 0)) DSL_RULES = replicate 8 (Inr [])"
  by code_simp

section \<open>Lines, columns and matched text\<close>

lemma runLength_le: "p + runLength f s p \<le> max p (length s)"
  unfolding runLength_def
  using length_takeWhile_le [of f "drop p s"] by simp

lemma rmatch_bounds:
  "(e, cs') \<in> set (rmatch r s p cs) \<Longrightarrow> p \<le> e \<and> (p \<le> length s \<longrightarrow> e \<le> length s)"
proof (induction r arbitrary: p cs e cs')
  case (Seq a b)
  from Seq.prems obtain e1 cs1 where m: "(e1, cs1) \<in> set (rmatch a s p cs)"
    "(e, cs') \<in> set (rmatch b s e1 cs1)" by auto
  from Seq.IH(1) [OF m(1)] Seq.IH(2) [OF m(2)] show ?case by auto
next
  case (Star f)
  then show ?case using runLength_le [of p f s] by auto
next
  case (Plus f)
  then show ?case using runLength_le [of p f s] by auto
next
  case (LazyStar f)
  then show ?case using runLength_le [of p f s] by auto
qed (auto split: if_splits)

lemma rmatch_consumes:
  "consumes r \<Longrightarrow> (e, cs') \<in> set (rmatch r s p cs) \<Longrightarrow> p < e"
proof (induction r arbitrary: p cs e cs')
  case (Seq a b)
  from Seq.prems(2) obtain e1 cs1 where m: "(e1, cs1) \<in> set (rmatch a s p cs)"
    "(e, cs') \<in> set (rmatch b s e1 cs1)" by auto
  show ?case
  proof (cases "consumes a")
    case True
    from Seq.IH(1) [OF True m(1)] rmatch_bounds [OF m(2)] show ?thesis by simp
  next
    case False
    then have "consumes b" using Seq.prems(1) by simp
    from Seq.IH(2) [OF this m(2)] rmatch_bounds [OF m(1)] show ?thesis by simp
  qed
qed (auto split: if_splits)

lemma execLoop_mem:
  "(i, e, cs) \<in> set (execLoop r s lastIndex js) \<Longrightarrow>
   i \<in> set js \<and> (e, cs) \<in> set (rmatch r s i [])"
proof (induction js arbitrary: lastIndex)
  case Nil
  then show ?case by simp
next
  case (Cons j js)
  show ?case
  proof (cases "j < lastIndex")
    case True
    then show ?thesis using Cons by auto
  next
    case False
    show ?thesis
    proof (cases "rmatch r s j []")
      case Nil
      then show ?thesis using Cons False by auto
    next
      case (Cons m ms)
      obtain e0 cs0 where m: "m = (e0, cs0)" by (cases m)
      from Cons.prems False Cons m
      have "(i, e, cs) = (j, e0, cs0) \<or> (i, e, cs) \<in> set (execLoop r s e0 js)" by simp
      then show ?thesis
      proof
        assume "(i, e, cs) = (j, e0, cs0)"
        then show ?thesis using Cons m by simp
      next
        assume "(i, e, cs) \<in> set (execLoop r s e0 js)"
        from Cons.IH [OF this] show ?thesis by simp
      qed
    qed
  qed
qed

lemma execAll_mem:
  assumes "(i, e, cs) \<in> set (execAll r s)"
  shows "i \<le> e \<and> e \<le> length s \<and> (e, cs) \<in> set (rmatch r s i [])"
proof -
  from execLoop_mem [OF assms [unfolded execAll_def]]
  have "i \<le> length s" "(e, cs) \<in> set (rmatch r s i [])" by auto
  then show ?thesis using rmatch_bounds [of e cs r s i "[]"] by simp
qed

lemma execAll_consumes:
  assumes "consumes r" "(i, e, cs) \<in> set (execAll r s)"
  shows "i < e \<and> e \<le> length s"
  using execAll_mem [OF assms(2)] rmatch_consumes [OF assms(1)] by blast


lemma pushEach_foldl_all_mem:
  "(\<forall>m \<in> set ms. \<forall>mk n. body m = Some mk \<longrightarrow> P (mk n)) \<Longrightarrow> (\<forall>s \<in> set acc. P s) \<Longrightarrow>
   (\<forall>s \<in> set (fst (foldl (\<lambda>(suggestions, counter) m.
              case body m of
                None \<Rightarrow> (suggestions, counter)
              | Some mk \<Rightarrow> (suggestions @ [mk (counter + 1)], counter + 1))
       (acc, c) ms)). P s)"
proof (induction ms arbitrary: acc c)
  case Nil
  then show ?case by simp
next
  case (Cons m ms)
  show ?case
  proof (cases "body m")
    case None
    then show ?thesis using Cons by simp
  next
    case (Some mk)
    have h1: "\<forall>s \<in> set (acc @ [mk (c + 1)]). P s"
      using Cons.prems Some by simp
    have h2: "\<forall>m \<in> set ms. \<forall>mk n. body m = Some mk \<longrightarrow> P (mk n)"
      using Cons.prems(1) by simp
    from Cons.IH [OF h2 h1] show ?thesis using Some by simp
  qed
qed

lemma returning_pushEach_all_mem:
  assumes "returning (pushEach body ms c0) = (Inr out, c')"
    and "\<And>m mk n. m \<in> set ms \<Longrightarrow> body m = Some mk \<Longrightarrow> P (mk n)"
  shows "\<forall>s \<in> set out. P s"
proof -
  have "out = fst (pushEach body ms c0)"
    using assms(1) by (auto simp: returning_def)
  moreover have "\<forall>s \<in> set (fst (pushEach body ms c0)). P s"
    unfolding pushEach_def
    by (rule pushEach_foldl_all_mem) (use assms(2) in auto)
  ultimately show ?thesis by simp
qed

lemma consumes_patterns:
  "consumes divisionPattern" "consumes (queryFunctions_pattern names)" "consumes uniqueKeyPattern"
  "consumes varPattern" "consumes (nodeAccessPattern library)" "consumes propertyAccessPattern"
  "consumes complexMathPattern"
  by (simp_all add: divisionPattern_def queryFunctions_pattern_def uniqueKeyPattern_def
      varPattern_def nodeAccessPattern_def propertyAccessPattern_def complexMathPattern_def)

text \<open>The patterns that the fixes and the engine loop over consume a character as well.\<close>

lemma consumes_lit: "s \<noteq> [] \<Longrightarrow> consumes (lit s)"
  by (induction s rule: lit.induct) simp_all

lemma consumes_fix_patterns:
  "s \<noteq> [] \<Longrightarrow> consumes (seqs [WordB, lit s, WordB])"
  "consumes blockCommentPattern" "consumes lineCommentPattern" "consumes typePattern"
  by (simp_all add: consumes_lit blockCommentPattern_def lineCommentPattern_def typePattern_def)

lemma substring_is_take_drop:
  "take (length (substring s a b)) (drop a s) = substring s a b" if "a \<le> b"
  using that by (simp add: substring_def min_def max_def)

lemma queryFunctions_placed:
  "queryFunctions_check line n allLines ctx config c = (Inr out, c') \<Longrightarrow>
   \<forall>s \<in> set out. sug_rule s = ''queryFunctions'' \<and> sug_column s < length line"
  unfolding queryFunctions_check_def
  apply (erule checkProlog_rule)
   apply (simp only: Let_def split: if_splits)
    apply (erule returning_pushEach_all_mem)
    apply (auto split: if_splits dest!: execAll_consumes [OF consumes_patterns(2)]
      simp: removeStringLiterals_length)
  done

lemma uniqueKey_placed:
  "uniqueKey_check line n allLines ctx config c = (Inr out, c') \<Longrightarrow>
   \<forall>s \<in> set out. sug_rule s = ''uniqueKey'' \<and> sug_column s < length line"
  unfolding uniqueKey_check_def
  apply (erule checkProlog_rule)
   apply (erule returning_pushEach_all_mem)
   apply (auto split: if_splits dest!: execAll_consumes [OF consumes_patterns(3)])
  done

lemma variableNaming_placed:
  "variableNaming_check line n allLines ctx config c = (Inr out, c') \<Longrightarrow>
   \<forall>s \<in> set out. sug_rule s = ''variableNaming'' \<and> sug_column s < length line"
  unfolding variableNaming_check_def
  apply (erule checkProlog_rule)
   apply (simp only: Let_def)
   apply (erule returning_pushEach_all_mem)
   apply (auto simp: Let_def removeStringLiterals_length split: if_splits
      dest!: execAll_consumes [OF consumes_patterns(4)])
  done

lemma mathOperationsParens_placed:
  "mathOperationsParens_check line n allLines ctx config c = (Inr out, c') \<Longrightarrow>
   \<forall>s \<in> set out. sug_rule s = ''mathOperationsParens'' \<and> sug_column s < length line \<and>
      originalAtColumn line s"
  unfolding mathOperationsParens_check_def
  apply (erule checkProlog_rule)
   apply (simp only: Let_def)
   apply (erule returning_pushEach_all_mem)
   apply (auto simp: Let_def removeStringLiterals_length originalAtColumn_def
      substring_is_take_drop split: if_splits
      dest!: execAll_consumes [OF consumes_patterns(7)])
  done


lemma findNodeAccess_mem:
  "(library, nodeName, position, fullMatch) \<in> set (nonOptimalNodeAccess_findNodeAccess line config) \<Longrightarrow>
   \<exists>e cs. (position, e, cs) \<in> set (execAll (nodeAccessPattern library) line) \<and>
     fullMatch = substring line position e"
  unfolding nonOptimalNodeAccess_findNodeAccess_def Let_def by auto

lemma nonOptimalNodeAccess_placed:
  "nonOptimalNodeAccess_check line n allLines ctx config c = (Inr out, c') \<Longrightarrow>
   \<forall>s \<in> set out. sug_rule s = ''nonOptimalNodeAccess'' \<and> sug_column s < length line \<and>
      originalAtColumn line s"
  unfolding nonOptimalNodeAccess_check_def
  apply (erule checkProlog_rule)
   apply (erule returning_pushEach_all_mem)
   apply (auto simp: removeStringLiterals_length originalAtColumn_def substring_is_take_drop
      dest!: findNodeAccess_mem execAll_consumes [OF consumes_patterns(5)])
  done

lemma identPattern_match:
  "(e, cs') \<in> set (rmatch identPattern s p cs) \<Longrightarrow> cs' = cs"
  unfolding identPattern_def by (auto split: if_splits)

lemma propertyAccess_match:
  assumes "(e, cs) \<in> set (rmatch propertyAccessPattern s p [])" "p \<le> length s"
  shows "capture s cs 1 @ ''.'' @ capture s cs 2 = substring s p e"
proof -
  from assms(1) obtain e1 c1 e2 c2 where
    g1: "(e1, c1) \<in> set (rmatch identPattern s p [])" and
    dot: "e1 < length s" "s ! e1 = CHR ''.''" and
    g2: "(e, c2) \<in> set (rmatch identPattern s (Suc e1) ((1, p, e1) # c1))" and
    cs: "cs = (2, Suc e1, e) # c2"
    unfolding propertyAccessPattern_def by (auto split: if_splits)
  have c1: "c1 = []" using identPattern_match [OF g1] .
  have c2: "c2 = [(1, p, e1)]" using identPattern_match [OF g2] c1 by simp
  have b1: "p \<le> e1" using rmatch_bounds [OF g1] by simp
  have b2: "Suc e1 \<le> e" "e \<le> length s" using rmatch_bounds [OF g2] dot(1) by auto
  have cap1: "capture s cs 1 = take (e1 - p) (drop p s)"
    using b1 by (simp add: capture_def cs c2 substring_def min_def max_def)
  have cap2: "capture s cs 2 = take (e - Suc e1) (drop (Suc e1) s)"
    using b2 by (simp add: capture_def cs c2 substring_def min_def max_def)
  have sub: "substring s p e = take (e - p) (drop p s)"
    using b1 b2 by (simp add: substring_def min_def max_def)
  have split: "take (e - p) (drop p s) =
      take (e1 - p) (drop p s) @ [s ! e1] @ take (e - Suc e1) (drop (Suc e1) s)"
  proof -
    have "e - p = (e1 - p) + Suc (e - Suc e1)" using b1 b2 by simp
    then have "take (e - p) (drop p s) =
        take (e1 - p) (drop p s) @ take (Suc (e - Suc e1)) (drop (e1 - p) (drop p s))"
      by (simp only: take_add)
    moreover have "drop (e1 - p) (drop p s) = drop e1 s" using b1 by simp
    moreover have "take (Suc (e - Suc e1)) (drop e1 s) = s ! e1 # take (e - Suc e1) (drop (Suc e1) s)"
      using dot(1) by (simp add: Cons_nth_drop_Suc [symmetric])
    ultimately show ?thesis by simp
  qed
  show ?thesis using cap1 cap2 sub split dot(2) by simp
qed

lemma propertyAccess_original:
  assumes "(e, cs) \<in> set (rmatch propertyAccessPattern s p [])" "p \<le> length s"
  shows "take (Suc (length (capture s cs (Suc 0)) + length (capture s cs 2))) (drop p s) =
         capture s cs (Suc 0) @ CHR ''.'' # capture s cs 2"
proof -
  have le: "p \<le> e" using rmatch_bounds [OF assms(1)] by simp
  have eq: "capture s cs (Suc 0) @ CHR ''.'' # capture s cs 2 = substring s p e"
    using propertyAccess_match [OF assms] by simp
  have "take (length (capture s cs (Suc 0) @ CHR ''.'' # capture s cs 2)) (drop p s) =
        capture s cs (Suc 0) @ CHR ''.'' # capture s cs 2"
    unfolding eq using substring_is_take_drop [OF le] .
  then show ?thesis by simp
qed

lemma nullAccessProtection_placed:
  "nullAccessProtection_check line n allLines ctx config c = (Inr out, c') \<Longrightarrow>
   \<forall>s \<in> set out. sug_rule s = ''nullAccessProtection'' \<and> sug_column s < length line \<and>
      originalAtColumn line s"
  unfolding nullAccessProtection_check_def
  apply (erule checkProlog_rule)
   apply (simp only: Let_def)
   apply (erule returning_pushEach_all_mem)
   apply (clarsimp simp: Let_def removeStringLiterals_length originalAtColumn_def split: if_splits)
   apply (frule execAll_consumes [OF consumes_patterns(6)])
   apply (drule execAll_mem)
   apply (clarsimp simp: removeStringLiterals_length)
   apply (rule propertyAccess_original, assumption)
   apply (simp add: removeStringLiterals_length)
  apply simp
  done


lemma trim_span:
  assumes "k < length t" "\<not> isSpaceChar (t ! k)"
  shows "\<exists>a. a \<le> k \<and> k < a + length (trim t) \<and> trim t = take (length (trim t)) (drop a t)"
proof -
  define a where "a = length (takeWhile isSpaceChar t)"
  define u where "u = dropWhile isSpaceChar t"
  define w where "w = rev (takeWhile isSpaceChar (rev u))"
  have u: "u = drop a t" by (simp add: u_def a_def dropWhile_eq_drop)
  have ak: "a \<le> k"
  proof (rule ccontr)
    assume "\<not> a \<le> k"
    then have "k < length (takeWhile isSpaceChar t)" by (simp add: a_def)
    then have "takeWhile isSpaceChar t ! k \<in> set (takeWhile isSpaceChar t)"
      "takeWhile isSpaceChar t ! k = t ! k"
      by (rule nth_mem, rule takeWhile_nth)
    then have "isSpaceChar (t ! k)" using set_takeWhileD [of "t ! k" isSpaceChar t] by simp
    then show False using assms(2) by simp
  qed
  have "rev (takeWhile isSpaceChar (rev u) @ dropWhile isSpaceChar (rev u)) =
        rev (dropWhile isSpaceChar (rev u)) @ rev (takeWhile isSpaceChar (rev u))"
    by (rule rev_append)
  then have "u = rev (dropWhile isSpaceChar (rev u)) @ rev (takeWhile isSpaceChar (rev u))"
    by (simp only: takeWhile_dropWhile_id rev_rev_ident)
  then have split: "u = trim t @ w"
    by (simp only: trim_def u_def w_def)
  have wsp: "\<forall>x \<in> set w. isSpaceChar x"
    unfolding w_def using set_takeWhileD by fastforce
  have ku: "k - a < length u" "u ! (k - a) = t ! k"
    using assms(1) ak u by simp_all
  have "k - a < length (trim t)"
  proof (rule ccontr)
    assume n: "\<not> k - a < length (trim t)"
    have lu: "length u = length (trim t) + length w" using split by (metis length_append)
    have "u ! (k - a) = (trim t @ w) ! (k - a)" using split by simp
    then have "u ! (k - a) = w ! (k - a - length (trim t))"
      using n by (simp add: nth_append)
    moreover have "k - a - length (trim t) < length w" using n ku(1) lu by simp
    ultimately have "isSpaceChar (u ! (k - a))" using wsp nth_mem by metis
    then show False using ku(2) assms(2) by simp
  qed
  moreover have "trim t = take (length (trim t)) (drop a t)"
    using split u by (metis append_eq_conv_conj)
  ultimately show ?thesis using ak by (intro exI [of _ a]) auto
qed

lemma find_SomeD: "find P xs = Some x \<Longrightarrow> x \<in> set xs \<and> P x"
  by (induction xs) (auto split: if_splits)

lemma divisionPattern_match:
  "(e, cs) \<in> set (rmatch divisionPattern s p []) \<Longrightarrow> p < length s \<and> s ! p = CHR ''/''"
  unfolding divisionPattern_def by (auto split: if_splits)

lemma not_space_slash: "\<not> isSpaceChar (CHR ''/'')"
  by (simp add: isSpaceChar_def)

lemma extractExpression_span:
  assumes "p < length s" "s ! p = CHR ''/''"
  shows "\<exists>st. st \<le> p \<and> p < st + length (divisionOperations_extractExpression s p) \<and>
     take (length (divisionOperations_extractExpression s p)) (drop st s) =
       divisionOperations_extractExpression s p"
proof -
  define start where "start = (case find (\<lambda>i. s ! i \<in> set ''=,('') (rev [0..<p]) of
                     None \<Rightarrow> 0 | Some i \<Rightarrow> i + 1)"
  define en where "en = (case find (\<lambda>i. s ! i \<in> set '',)'') [p + 1..<length s] of
                   None \<Rightarrow> length s | Some i \<Rightarrow> i)"
  define t where "t = take (en - start) (drop start s)"
  have st: "start \<le> p"
    unfolding start_def by (auto split: option.splits dest!: find_SomeD)
  have en: "p < en" "en \<le> length s"
    unfolding en_def using assms(1)
    by (auto split: option.splits dest!: find_SomeD)
  have ex: "divisionOperations_extractExpression s p = trim t"
    unfolding divisionOperations_extractExpression_def Let_def start_def [symmetric] en_def [symmetric]
      t_def substring_def
    using st en by (simp add: min_def max_def)
  have k: "p - start < length t" "t ! (p - start) = s ! p"
    using st en by (simp_all add: t_def)
  then have "\<not> isSpaceChar (t ! (p - start))" using assms(2) not_space_slash by simp
  from trim_span [OF k(1) this] obtain a where a: "a \<le> p - start" "p - start < a + length (trim t)"
    "trim t = take (length (trim t)) (drop a t)" by blast
  have "length (trim t) = min (length (trim t)) (length (drop a t))"
    using arg_cong [OF a(3), of length] by (simp only: length_take)
  then have "length (trim t) \<le> length (drop a t)" by linarith
  then have n: "length (trim t) \<le> en - start - a"
    using en st by (simp add: t_def)
  have "drop a t = take (en - start - a) (drop (start + a) s)"
    by (simp add: t_def drop_take add.commute)
  then have "take (length (trim t)) (drop (start + a) s) = trim t"
    using a(3) n by (simp add: min_def)
  then show ?thesis
    using a(1,2) st unfolding ex by (intro exI [of _ "start + a"]) auto
qed

lemma divisionOperations_placed:
  assumes "divisionOperations_check line n allLines ctx config c = (Inr out, c')"
  shows "\<forall>s \<in> set out. sug_rule s = ''divisionOperations'' \<and> sug_column s < length line \<and>
      line ! sug_column s = CHR ''/'' \<and> originalSpansColumn line s"
proof
  fix s assume s: "s \<in> set out"
  define lws where "lws = removeStringLiterals line"
  from divisionOperations_check_spec [OF assms] s
  have f: "sug_rule s = ''divisionOperations''"
    "sug_column s \<in> fst ` set (execAll divisionPattern lws)"
    "sug_original s = Some (divisionOperations_extractExpression lws (sug_column s))"
    by (auto simp: lws_def)
  from f(2) obtain e cs where "(sug_column s, e, cs) \<in> set (execAll divisionPattern lws)" by auto
  from execAll_mem [OF this] divisionPattern_match
  have p: "sug_column s < length lws" "lws ! sug_column s = CHR ''/''" by blast+
  have len: "length lws = length line" by (simp add: lws_def removeStringLiterals_length)
  have "line ! sug_column s = CHR ''/''"
    using removeStringLiterals_nth [of "sug_column s" line] p len
    by (auto simp: lws_def split: if_splits)
  moreover from extractExpression_span [OF p] obtain st where
    "st \<le> sug_column s" "sug_column s < st + length (divisionOperations_extractExpression lws (sug_column s))"
    "take (length (divisionOperations_extractExpression lws (sug_column s))) (drop st lws) =
       divisionOperations_extractExpression lws (sug_column s)" by blast
  then have "originalSpansColumn line s"
    unfolding originalSpansColumn_def f(3) lws_def [symmetric]
    by (auto simp: list_ex_iff intro!: bexI [of _ st])
  ultimately show "sug_rule s = ''divisionOperations'' \<and> sug_column s < length line \<and>
      line ! sug_column s = CHR ''/'' \<and> originalSpansColumn line s"
    using f(1) p(1) len by simp
qed


lemma trim_sublist: "\<exists>a. trim t = take (length (trim t)) (drop a t)"
proof -
  define u where "u = dropWhile isSpaceChar t"
  have "rev (takeWhile isSpaceChar (rev u) @ dropWhile isSpaceChar (rev u)) =
        rev (dropWhile isSpaceChar (rev u)) @ rev (takeWhile isSpaceChar (rev u))"
    by (rule rev_append)
  then have "u = rev (dropWhile isSpaceChar (rev u)) @ rev (takeWhile isSpaceChar (rev u))"
    by (simp only: takeWhile_dropWhile_id rev_rev_ident)
  then have "u = trim t @ rev (takeWhile isSpaceChar (rev u))"
    by (simp only: trim_def u_def)
  then have "trim t = take (length (trim t)) u" by (metis append_eq_conv_conj)
  then show ?thesis unfolding u_def dropWhile_eq_drop by blast
qed

lemma trim_Nil: "trim [] = []"
  by (simp add: trim_def)

lemma scanLine_keeps_found:
  "extraneousBlocks_scanLine lws js skip (bc, pd, Some j0) = r \<Longrightarrow>
   (case r of Inl (bc', pd', f') \<Rightarrow> f' = Some j0 | Inr (bc', col) \<Rightarrow> col = j0)"
proof (induction js arbitrary: skip bc pd r)
  case Nil
  then show ?case by auto
next
  case (Cons j js)
  then show ?case by (auto split: if_splits)
qed

lemma scanLine_finds:
  "\<exists>j \<in> set js. substring lws j (j + 6) = ''block('' \<Longrightarrow>
   extraneousBlocks_scanLine lws js 0 (bc, pd, None) = r \<Longrightarrow>
   (case r of Inl (bc', pd', f') \<Rightarrow> \<exists>j \<in> set js. f' = Some j | Inr (bc', col) \<Rightarrow> col \<in> set js)"
proof (induction js arbitrary: bc pd r)
  case Nil
  then show ?case by simp
next
  case (Cons j js)
  show ?case
  proof (cases "substring lws j (j + 6) = ''block(''")
    case True
    then have "extraneousBlocks_scanLine lws js 5 (bc, 1, Some j) = r"
      using Cons.prems(2) by simp
    from scanLine_keeps_found [OF this] show ?thesis
      by (auto split: sum.splits prod.splits)
  next
    case False
    then have ex: "\<exists>j \<in> set js. substring lws j (j + 6) = ''block(''"
      using Cons.prems(1) by auto
    have "extraneousBlocks_scanLine lws js 0 (bc, pd, None) = r"
      using Cons.prems(2) False by simp
    from Cons.IH [OF ex this] show ?thesis
      by (auto split: sum.splits prod.splits)
  qed
qed

lemma scanLines_keeps_found:
  "extraneousBlocks_scanLines ls (bc, pd, Some j0) = Some (content, col) \<Longrightarrow> col = j0"
proof (induction ls arbitrary: bc pd)
  case Nil
  then show ?case by simp
next
  case (Cons l ls)
  obtain r where r: "extraneousBlocks_scanLine (removeStringLiterals l)
      [0..<length (removeStringLiterals l)] 0 (bc, pd, Some j0) = r" by simp
  from scanLine_keeps_found [OF r] Cons.prems r Cons.IH show ?case
    by (auto split: sum.splits prod.splits if_splits)
qed

lemma scanLines_first_line:
  assumes "\<exists>j < length (removeStringLiterals l). substring (removeStringLiterals l) j (j + 6) = ''block(''"
    "extraneousBlocks_scanLines (l # ls) ([], 0, None) = Some (content, col)"
  shows "col < length l"
proof -
  obtain r where r: "extraneousBlocks_scanLine (removeStringLiterals l)
      [0..<length (removeStringLiterals l)] 0 ([], 0, None) = r" by simp
  have ex: "\<exists>j \<in> set [0..<length (removeStringLiterals l)].
      substring (removeStringLiterals l) j (j + 6) = ''block(''"
    using assms(1) by auto
  from scanLine_finds [OF ex r] assms(2) r
  show ?thesis
    by (auto split: sum.splits prod.splits if_splits simp: removeStringLiterals_length
        dest: scanLines_keeps_found)
qed

lemma take_drop_take: "i + k \<le> n \<Longrightarrow> take k (drop i (take n xs)) = take k (drop i xs)"
  by (simp add: drop_take min_def)

lemma substring_from: "substring s j (j + k) = take k (drop j s)"
  by (simp add: substring_def)

lemma indexOf_trim_block:
  assumes "indexOf (trim s) ''block('' \<noteq> None"
  shows "\<exists>j < length s. substring s j (j + 6) = ''block(''"
proof -
  have six: "length ''block('' = 6" by simp
  from assms obtain i where "indexOf (trim s) ''block('' = Some i" by auto
  then have "startsAt (trim s) i ''block(''"
    unfolding indexOf_def using find_SomeD by fast
  then have i: "i + 6 \<le> length (trim s)" "take 6 (drop i (trim s)) = ''block(''"
    unfolding startsAt_def six by blast+
  obtain a where a: "trim s = take (length (trim s)) (drop a s)" using trim_sublist by blast
  have "take 6 (drop i (take (length (trim s)) (drop a s))) = take 6 (drop i (drop a s))"
    using i(1) by (rule take_drop_take)
  then have b: "take 6 (drop (i + a) s) = ''block(''" using i(2) a by (simp only: drop_drop)
  have "i + a < length s"
  proof (rule ccontr)
    assume "\<not> i + a < length s"
    then have "drop (i + a) s = []" by simp
    then show False using b by simp
  qed
  moreover have "substring s (i + a) (i + a + 6) = ''block(''"
    using b by (simp only: substring_from)
  ultimately show ?thesis by blast
qed

lemma removeStringLiterals_Nil: "removeStringLiterals [] = []"
  by (simp add: removeStringLiterals_def)

lemma extraneousBlocks_braces_facts:
  "sug_rule (extraneousBlocks_braces n rc msg sev k) = ''extraneousBlocks''"
  "sug_column (extraneousBlocks_braces n rc msg sev k) = 0"
  by (simp_all add: extraneousBlocks_braces_def)

lemma extraneousBlocks_line_nonempty:
  "extraneousBlocks_singleStatement (trim (removeStringLiterals line)) n allLines
   \<or> extraneousBlocks_emptyBlock (trim (removeStringLiterals line)) n allLines \<Longrightarrow> 0 < length line"
  by (cases line)
    (auto simp: extraneousBlocks_singleStatement_def extraneousBlocks_emptyBlock_def
       removeStringLiterals_Nil trim_Nil)

lemma checkBlockFunction_Some:
  assumes "extraneousBlocks_checkBlockFunction n allLines rc c0 = (Inr (Some s), c1)"
  shows "sug_rule s = ''extraneousBlocks'' \<and>
     (\<exists>content. extraneousBlocks_scanLines (drop (n - 1) allLines) ([], 0, None) =
        Some (content, sug_column s))"
  using assms unfolding extraneousBlocks_checkBlockFunction_def
  by (auto split: if_splits option.splits prod.splits)

lemma extraneousBlocks_placed:
  assumes "extraneousBlocks_check line n allLines ctx config c = (Inr out, c')"
    "1 \<le> n" "n \<le> length allLines" "allLines ! (n - 1) = line"
  shows "\<forall>s \<in> set out. sug_rule s = ''extraneousBlocks'' \<and> sug_column s < length line"
proof
  fix s assume s: "s \<in> set out"
  define tl where "tl = trim (removeStringLiterals line)"
  have d: "drop (n - 1) allLines = line # drop n allLines"
    using assms(2,3,4) Cons_nth_drop_Suc [of "n - 1" allLines] by simp
  from assms(1) [unfolded extraneousBlocks_check_def]
  show "sug_rule s = ''extraneousBlocks'' \<and> sug_column s < length line"
  proof (cases rule: checkProlog_cases)
    case nothing
    then show ?thesis using s by simp
  next
    case (enabled rules rc)
    define c0 where "c0 = (if n = 1 then 0 else c)"
    obtain blockResult c1 where
      br: "(if indexOf tl ''block('' \<noteq> None
            then extraneousBlocks_checkBlockFunction n allLines rc c0
            else (Inr None, c0)) = (Inr blockResult, c1)" and
      out: "out = (case blockResult of None \<Rightarrow> [] | Some s \<Rightarrow> [s])
           @ (if extraneousBlocks_singleStatement tl n allLines then
                [extraneousBlocks_braces n rc
                   ''Unnecessary block detected. Single statement does not require braces.''
                   ''info'' (c1 + 1)]
              else [])
           @ (if extraneousBlocks_emptyBlock tl n allLines then
                [extraneousBlocks_braces n rc
                   ''Empty block detected. Consider removing or adding implementation.''
                   ''warning'' ((if extraneousBlocks_singleStatement tl n allLines then c1 + 1 else c1) + 1)]
              else [])"
      using enabled(4) unfolding Let_def tl_def [symmetric] c0_def [symmetric]
      by (auto split: prod.splits sum.splits)
    consider (block) "blockResult = Some s"
      | (braces) msg sev k where "s = extraneousBlocks_braces n rc msg sev k"
          "extraneousBlocks_singleStatement tl n allLines \<or> extraneousBlocks_emptyBlock tl n allLines"
      using s unfolding out by (auto split: option.splits if_splits)
    then show ?thesis
    proof cases
      case block
      then have idx: "indexOf tl ''block('' \<noteq> None"
        and cb: "extraneousBlocks_checkBlockFunction n allLines rc c0 = (Inr (Some s), c1)"
        using br by (auto split: if_splits)
      from checkBlockFunction_Some [OF cb] obtain content where
        sc: "sug_rule s = ''extraneousBlocks''"
        "extraneousBlocks_scanLines (line # drop n allLines) ([], 0, None) = Some (content, sug_column s)"
        unfolding d by blast
      from indexOf_trim_block [OF idx [unfolded tl_def]] scanLines_first_line [OF _ sc(2)]
      show ?thesis using sc(1) by blast
    next
      case braces
      then show ?thesis
        using extraneousBlocks_line_nonempty [of line n allLines]
        by (simp add: extraneousBlocks_braces_facts tl_def)
    qed
  qed
qed


lemma DSL_RULES_place:
  assumes "r \<in> set DSL_RULES" "i < length lines"
    "rule_check r (lines ! i) (i + 1) lines ctx config c = (Inr out, c')"
  shows "\<forall>s \<in> set out. wellPlaced lines s"
proof
  fix s assume s: "s \<in> set out"
  have line: "sug_line s = i + 1" "sug_rule s = rule_name r"
    using DSL_RULES_tag [OF assms(1)] assms(3) s unfolding tagsSuggestions_def by blast+
  have pre: "1 \<le> i + 1" "i + 1 \<le> length lines" "lines ! (i + 1 - 1) = lines ! i"
    using assms(2) by simp_all
  from assms(1) consider
    "rule_check r = divisionOperations_check" | "rule_check r = queryFunctions_check"
    | "rule_check r = uniqueKey_check" | "rule_check r = variableNaming_check"
    | "rule_check r = nonOptimalNodeAccess_check" | "rule_check r = nullAccessProtection_check"
    | "rule_check r = mathOperationsParens_check" | "rule_check r = extraneousBlocks_check"
    unfolding DSL_RULES_def by auto
  then have "sug_column s < length (lines ! i) \<and>
     (sug_rule s \<in> set [''nonOptimalNodeAccess'', ''nullAccessProtection'', ''mathOperationsParens'']
        \<longrightarrow> originalAtColumn (lines ! i) s) \<and>
     (sug_rule s = ''divisionOperations''
        \<longrightarrow> lines ! i ! sug_column s = CHR ''/'' \<and> originalSpansColumn (lines ! i) s)"
  proof cases
    case 1
    from divisionOperations_placed [OF assms(3) [unfolded 1]] s show ?thesis by auto
  next
    case 2
    from queryFunctions_placed [OF assms(3) [unfolded 2]] s show ?thesis by auto
  next
    case 3
    from uniqueKey_placed [OF assms(3) [unfolded 3]] s show ?thesis by auto
  next
    case 4
    from variableNaming_placed [OF assms(3) [unfolded 4]] s show ?thesis by auto
  next
    case 5
    from nonOptimalNodeAccess_placed [OF assms(3) [unfolded 5]] s show ?thesis by auto
  next
    case 6
    from nullAccessProtection_placed [OF assms(3) [unfolded 6]] s show ?thesis by auto
  next
    case 7
    from mathOperationsParens_placed [OF assms(3) [unfolded 7]] s show ?thesis by auto
  next
    case 8
    from extraneousBlocks_placed [OF assms(3) [unfolded 8] pre] s show ?thesis by auto
  qed
  then show "wellPlaced lines s"
    unfolding wellPlaced_def using line(1) assms(2) by simp
qed

lemma checkLines_all:
  assumes "\<forall>i out c c'. i < length lines \<longrightarrow>
      rule_check r (lines ! i) (i + 1) lines ctx config c = (Inr out, c') \<longrightarrow> (\<forall>s \<in> set out. Q s)"
    "\<forall>i \<in> set idxs. i < length lines"
    "checkLines r lines ctx config idxs acc c = (Inr out, c')"
  shows "\<exists>new. out = acc @ new \<and> (\<forall>s \<in> set new. Q s)"
  using assms(2,3)
proof (induction idxs arbitrary: acc c)
  case Nil
  then show ?case by simp
next
  case (Cons i idxs)
  obtain res c1 where res: "rule_check r (lines ! i) (i + 1) lines ctx config c = (res, c1)"
    by (cases "rule_check r (lines ! i) (i + 1) lines ctx config c")
  show ?case
  proof (cases res)
    case (Inl err)
    then show ?thesis using Cons.prems(2) res by simp
  next
    case (Inr ls)
    have i: "i < length lines" using Cons.prems(1) by simp
    have q: "\<forall>s \<in> set ls. Q s" using assms(1) i res [unfolded Inr] by blast
    have rest: "checkLines r lines ctx config idxs (acc @ ls) c1 = (Inr out, c')"
      using Cons.prems(2) res Inr by simp
    have "\<forall>i \<in> set idxs. i < length lines" using Cons.prems(1) by simp
    from Cons.IH [OF this rest] obtain new where "out = (acc @ ls) @ new" "\<forall>s \<in> set new. Q s"
      by blast
    then show ?thesis using q by (intro exI [of _ "ls @ new"]) auto
  qed
qed

lemma checkRules_all:
  assumes "\<forall>r \<in> set rs. \<forall>i out c c'. i < length lines \<longrightarrow>
      rule_check r (lines ! i) (i + 1) lines ctx config c = (Inr out, c') \<longrightarrow> (\<forall>s \<in> set out. Q s)"
    "checkRules rs k lines ctx config acc cs = (Inr out, cs')"
  shows "\<exists>new. out = acc @ new \<and> (\<forall>s \<in> set new. Q s)"
  using assms
proof (induction rs arbitrary: k acc cs)
  case Nil
  then show ?case by simp
next
  case (Cons r rs)
  obtain res c1 where res: "checkLines r lines ctx config [0..<length lines] acc (cs k) = (res, c1)"
    by (cases "checkLines r lines ctx config [0..<length lines] acc (cs k)")
  show ?case
  proof (cases res)
    case (Inl err)
    then show ?thesis using Cons.prems(2) res by simp
  next
    case (Inr out1)
    have one: "\<forall>i out c c'. i < length lines \<longrightarrow>
      rule_check r (lines ! i) (i + 1) lines ctx config c = (Inr out, c') \<longrightarrow> (\<forall>s \<in> set out. Q s)"
      using Cons.prems(1) by simp
    have idx: "\<forall>i \<in> set [0..<length lines]. i < length lines" by simp
    from checkLines_all [OF one idx res [unfolded Inr]]
    obtain new1 where new1: "out1 = acc @ new1" "\<forall>s \<in> set new1. Q s" by blast
    have rest: "checkRules rs (k + 1) lines ctx config out1 (cs(k := c1)) = (Inr out, cs')"
      using Cons.prems(2) res Inr by simp
    have more: "\<forall>r \<in> set rs. \<forall>i out c c'. i < length lines \<longrightarrow>
      rule_check r (lines ! i) (i + 1) lines ctx config c = (Inr out, c') \<longrightarrow> (\<forall>s \<in> set out. Q s)"
      using Cons.prems(1) by simp
    from Cons.IH [OF more rest]
    obtain new2 where "out = out1 @ new2" "\<forall>s \<in> set new2. Q s" by blast
    then show ?thesis using new1 by (intro exI [of _ "new1 @ new2"]) auto
  qed
qed

lemma analyzeDSL_wellPlaced:
  assumes "fst (analyzeDSL code optionsConfig w cs) = Inr res"
  shows "\<forall>s \<in> set (res_suggestions res). wellPlaced (splitLines code) s"
proof -
  define config where "config = (case optionsConfig of Some c \<Rightarrow> c
      | None \<Rightarrow> (case win_dslSuggestionsConfigData w of Some c \<Rightarrow> c | None \<Rightarrow> emptyConfig))"
  define ctx where "ctx = \<lparr>ctx_lines = splitLines code, ctx_totalLines = length (splitLines code), ctx_isInComment = False\<rparr>"
  obtain cs' where run: "checkRules DSL_RULES 0 (splitLines code) ctx config [] cs = (Inr (res_suggestions res), cs')"
    using assms unfolding analyzeDSL_def Let_def config_def [symmetric] ctx_def [symmetric]
    by (auto split: prod.splits sum.splits)
  have "\<forall>r \<in> set DSL_RULES. \<forall>i out c c'. i < length (splitLines code) \<longrightarrow>
      rule_check r (splitLines code ! i) (i + 1) (splitLines code) ctx config c = (Inr out, c') \<longrightarrow>
      (\<forall>s \<in> set out. wellPlaced (splitLines code) s)"
    using DSL_RULES_place by blast
  from checkRules_all [OF this run] show ?thesis by simp
qed


text \<open>
  C7 (as amended). Every suggestion that \<open>analyzeDSL\<close> returns has a line between 1
  and the number of lines of the code and a column that is an index into that line.
  For the rules nonOptimalNodeAccess, nullAccessProtection and mathOperationsParens,
  \<open>original\<close> is the text of the masked line at that column. For the division rule the
  column is the position of the operator \<open>/\<close> in the line, and \<open>original\<close> is a piece of
  the masked line that contains that position, not one that starts there.
\<close>

theorem C7_suggestions_index_the_source:
  "fst (analyzeDSL code optionsConfig w cs) = Inr res \<Longrightarrow>
   \<forall>s \<in> set (res_suggestions res). wellPlaced (splitLines code) s"
  by (rule analyzeDSL_wellPlaced)

text \<open>The same at a line with a division and a property access.\<close>

theorem C7_suggestions_index_the_source_witness:
  "fst (analyzeDSL ''x = a.b / c'' None
          (windowOf (Some (configOf [(''divisionOperations'', enabledRule),
                                     (''nullAccessProtection'', enabledRule)]))) noCounters) =
     Inr (projr (fst (analyzeDSL ''x = a.b / c'' None
          (windowOf (Some (configOf [(''divisionOperations'', enabledRule),
                                     (''nullAccessProtection'', enabledRule)]))) noCounters))) \<and>
   list_all (wellPlaced (splitLines ''x = a.b / c''))
     (res_suggestions (projr (fst (analyzeDSL ''x = a.b / c'' None
          (windowOf (Some (configOf [(''divisionOperations'', enabledRule),
                                     (''nullAccessProtection'', enabledRule)]))) noCounters)))) \<and>
   map (\<lambda>s. (sug_rule s, sug_line s, sug_column s, sug_original s))
     (res_suggestions (projr (fst (analyzeDSL ''x = a.b / c'' None
          (windowOf (Some (configOf [(''divisionOperations'', enabledRule),
                                     (''nullAccessProtection'', enabledRule)]))) noCounters)))) =
     [(''divisionOperations'', 1, 8, Some ''a.b / c''), (''nullAccessProtection'', 1, 4, Some ''a.b'')]"
proof -
  have h: "fst (analyzeDSL ''x = a.b / c'' None
          (windowOf (Some (configOf [(''divisionOperations'', enabledRule),
                                     (''nullAccessProtection'', enabledRule)]))) noCounters) =
     Inr (projr (fst (analyzeDSL ''x = a.b / c'' None
          (windowOf (Some (configOf [(''divisionOperations'', enabledRule),
                                     (''nullAccessProtection'', enabledRule)]))) noCounters)))"
    by code_simp
  have m: "map (\<lambda>s. (sug_rule s, sug_line s, sug_column s, sug_original s))
     (res_suggestions (projr (fst (analyzeDSL ''x = a.b / c'' None
          (windowOf (Some (configOf [(''divisionOperations'', enabledRule),
                                     (''nullAccessProtection'', enabledRule)]))) noCounters)))) =
     [(''divisionOperations'', 1, 8, Some ''a.b / c''), (''nullAccessProtection'', 1, 4, Some ''a.b'')]"
    by code_simp
  show ?thesis
    using h m C7_suggestions_index_the_source [OF h] by (simp add: list_all_iff)
qed

text \<open>
  C7 (as stated) fails for the division rule: for the code \<open>a / b\<close> the suggestion has
  the column 2 and the original \<open>a / b\<close>, and the text at column 2 is \<open>/ b\<close>.
\<close>

theorem C7_division_column_counterexample:
  "length (returnedSuggestions (fst (analyzeDSL ''a / b'' None
      (windowOf (Some (configOf [(''divisionOperations'', enabledRule)]))) noCounters))) = 1 \<and>
   sug_line (hd (returnedSuggestions (fst (analyzeDSL ''a / b'' None
      (windowOf (Some (configOf [(''divisionOperations'', enabledRule)]))) noCounters)))) = 1 \<and>
   sug_column (hd (returnedSuggestions (fst (analyzeDSL ''a / b'' None
      (windowOf (Some (configOf [(''divisionOperations'', enabledRule)]))) noCounters)))) = 2 \<and>
   sug_original (hd (returnedSuggestions (fst (analyzeDSL ''a / b'' None
      (windowOf (Some (configOf [(''divisionOperations'', enabledRule)]))) noCounters)))) = Some ''a / b'' \<and>
   \<not> originalAtColumn ''a / b'' (hd (returnedSuggestions (fst (analyzeDSL ''a / b'' None
      (windowOf (Some (configOf [(''divisionOperations'', enabledRule)]))) noCounters))))"
  by code_simp

section \<open>Documents with one division on every line\<close>


























end
